theory Spec2Isabelle
  imports Main
begin

section \<open>JavaScript values\<close>

text \<open>
  The two servers (\<^verbatim>\<open>simple-server/index.js\<close> and \<^verbatim>\<open>prompts-server/index.js\<close>) handle
  the values that \<^verbatim>\<open>JSON.parse\<close> produces. An object is an association list in
  insertion order. A string is a list of UTF-16 code units, written with Isabelle's
  \<open>char\<close> (one \<open>char\<close> per code unit, code units below 256). A number is an
  integer-valued double, written as the \<open>int\<close> it equals; numbers with a fractional part
  and the literals that overflow to \<^verbatim>\<open>Infinity\<close> are outside the model. Arithmetic on
  numbers is the arithmetic of doubles (\<open>double_add\<close> below), not that of \<open>int\<close>.

  A JSON value is never \<^verbatim>\<open>undefined\<close>. Where the program reads a property that may be
  absent, the model has a \<open>json option\<close>, \<open>None\<close> for \<^verbatim>\<open>undefined\<close>.
\<close>

datatype json =
    JNull
  | JBool bool
  | JNum int
  | JStr string
  | JArr "json list"
  | JObj "(string \<times> json) list"

text \<open>
  Exceptions. \<open>Error m\<close> is \<^verbatim>\<open>new Error(m)\<close>; \<open>ZodError issues\<close> is what
  \<^verbatim>\<open>schema.parse\<close> throws; the \<open>TypeError\<close>s are raised by the engine itself.
\<close>

datatype type_error =
    DestructureNull
  | ReadOfUndefined string
  | NotPrimitive

datatype js_error =
    Error string
  | ZodError "json list"
  | TypeError type_error

text \<open>
  What the program takes from the platform without computing it itself:
  \<^verbatim>\<open>JSON.parse\<close> (\<open>None\<close> when it throws a SyntaxError) and the engine's wording of
  a \<^verbatim>\<open>TypeError\<close>.
\<close>

record platform =
  json_parse :: "string \<Rightarrow> json option"
  type_error_message :: "type_error \<Rightarrow> string"

text \<open>\<^verbatim>\<open>v || {}\<close> takes the empty object for a falsy \<open>v\<close>.\<close>

fun truthy :: "json \<Rightarrow> bool" where
  "truthy JNull = False"
| "truthy (JBool b) = b"
| "truthy (JNum n) = (n \<noteq> 0)"
| "truthy (JStr s) = (s \<noteq> [])"
| "truthy (JArr xs) = True"
| "truthy (JObj kvs) = True"

fun or_empty_object :: "json option \<Rightarrow> json" where
  "or_empty_object None = JObj []"
| "or_empty_object (Some v) = (if truthy v then v else JObj [])"

text \<open>
  Reading a property, as destructuring does. It is used with the keys \<^verbatim>\<open>id\<close>,
  \<^verbatim>\<open>method\<close>, \<^verbatim>\<open>params\<close>, \<^verbatim>\<open>name\<close>, \<^verbatim>\<open>arguments\<close>, \<^verbatim>\<open>variables\<close> and the keys of the
  schemas, none of which a primitive, an array or \<^verbatim>\<open>Object.prototype\<close> has.
\<close>

fun get_prop :: "json \<Rightarrow> string \<Rightarrow> json option" where
  "get_prop (JObj kvs) k = map_of kvs k"
| "get_prop v k = None"

text \<open>
  An object literal as \<^verbatim>\<open>JSON.stringify\<close> writes it: a member whose value is
  \<^verbatim>\<open>undefined\<close> is left out.
\<close>

fun members :: "(string \<times> json option) list \<Rightarrow> (string \<times> json) list" where
  "members [] = []"
| "members ((k, None) # ms) = members ms"
| "members ((k, Some v) # ms) = (k, v) # members ms"

definition literal :: "(string \<times> json option) list \<Rightarrow> json" where
  "literal ms = JObj (members ms)"

subsection \<open>Conversion to a string\<close>

definition digit_char :: "nat \<Rightarrow> char" where
  "digit_char d = char_of (48 + d)"

fun nat_str :: "nat \<Rightarrow> string" where
  "nat_str n = (if n < 10 then [digit_char n] else nat_str (n div 10) @ [digit_char (n mod 10)])"

definition int_str :: "int \<Rightarrow> string" where
  "int_str i = (if i < 0 then CHR ''-'' # nat_str (nat (- i)) else nat_str (nat i))"

fun join :: "string \<Rightarrow> string list \<Rightarrow> string" where
  "join sep [] = []"
| "join sep [x] = x"
| "join sep (x # y # ys) = x @ sep @ join sep (y # ys)"

text \<open>
  \<^verbatim>\<open>ToString\<close>, as a template literal and a computed property key apply it. A number is
  written in decimal (JavaScript does so below \<open>10^21\<close>). An array joins its elements with
  commas, \<^verbatim>\<open>null\<close> as the empty string. A plain object gives \<^verbatim>\<open>[object Object]\<close> through
  the inherited \<^verbatim>\<open>toString\<close>; when it has an own property \<^verbatim>\<open>toString\<close> (never callable
  in a parsed value) the conversion throws a TypeError, \<open>None\<close> here.
\<close>

fun to_string :: "json \<Rightarrow> string option"
  and elems_to_string :: "json list \<Rightarrow> string list option" where
  "to_string JNull = Some ''null''"
| "to_string (JBool b) = Some (if b then ''true'' else ''false'')"
| "to_string (JNum n) = Some (int_str n)"
| "to_string (JStr s) = Some s"
| "to_string (JArr xs) = map_option (join '','') (elems_to_string xs)"
| "to_string (JObj kvs) =
     (if map_of kvs ''toString'' \<noteq> None then None else Some ''[object Object]'')"
| "elems_to_string [] = Some []"
| "elems_to_string (x # xs) =
     (case (if x = JNull then Some [] else to_string x) of
        None \<Rightarrow> None
      | Some s \<Rightarrow> map_option ((#) s) (elems_to_string xs))"

fun property_key :: "json option \<Rightarrow> string option" where
  "property_key None = Some ''undefined''"
| "property_key (Some v) = to_string v"

subsection \<open>Looking a name up in a registry object\<close>

text \<open>
  \<^verbatim>\<open>tools[name]\<close> converts \<open>name\<close> to a property key and searches the registry and
  then \<^verbatim>\<open>Object.prototype\<close>, whose members are all truthy and have no \<^verbatim>\<open>schema\<close>.
\<close>

definition object_prototype_keys :: "string list" where
  "object_prototype_keys =
     [''constructor'', ''__defineGetter__'', ''__defineSetter__'', ''hasOwnProperty'',
      ''__lookupGetter__'', ''__lookupSetter__'', ''isPrototypeOf'',
      ''propertyIsEnumerable'', ''toString'', ''valueOf'', ''__proto__'',
      ''toLocaleString'']"

datatype 'a member = Missing | Own 'a | Inherited

definition get_member :: "(string \<times> 'a) list \<Rightarrow> string \<Rightarrow> 'a member" where
  "get_member registry key =
     (case map_of registry key of
        Some t \<Rightarrow> Own t
      | None \<Rightarrow> if key \<in> set object_prototype_keys then Inherited else Missing)"

subsection \<open>Whitespace\<close>

text \<open>
  The characters that \<^verbatim>\<open>String.prototype.trim\<close> removes and \<^verbatim>\<open>\s\<close> matches, among
  the code units below 256: tab, line feed, vertical tab, form feed, carriage return,
  space and no-break space.
\<close>

definition is_space :: "char \<Rightarrow> bool" where
  "is_space c = (of_char c \<in> {9, 10, 11, 12, 13, 32, 160 :: nat})"

definition trim :: "string \<Rightarrow> string" where
  "trim s = rev (dropWhile is_space (rev (dropWhile is_space s)))"

section \<open>Schema validation (zod)\<close>

text \<open>
  The schemas of the source are \<^verbatim>\<open>z.object\<close> shapes whose fields are \<^verbatim>\<open>z.string()\<close>,
  \<^verbatim>\<open>z.string().min(n)\<close>, \<^verbatim>\<open>z.number()\<close> and \<^verbatim>\<open>z.string().optional()\<close>. \<^verbatim>\<open>parse\<close>
  returns the validated object, without the keys the shape does not name, or throws a
  \<^verbatim>\<open>ZodError\<close> holding one issue per failing field, in the order of the shape. The issues
  have the layout of zod 3.
\<close>

datatype zod_type = ZString | ZStringMin nat | ZNumber | ZOptional zod_type

type_synonym zod_object = "(string \<times> zod_type) list"

fun parsed_type :: "json option \<Rightarrow> string" where
  "parsed_type None = ''undefined''"
| "parsed_type (Some JNull) = ''null''"
| "parsed_type (Some (JBool b)) = ''boolean''"
| "parsed_type (Some (JNum n)) = ''number''"
| "parsed_type (Some (JStr s)) = ''string''"
| "parsed_type (Some (JArr xs)) = ''array''"
| "parsed_type (Some (JObj kvs)) = ''object''"

definition invalid_type :: "string \<Rightarrow> json option \<Rightarrow> string list \<Rightarrow> json" where
  "invalid_type expected v path =
     JObj [(''code'', JStr ''invalid_type''),
           (''expected'', JStr expected),
           (''received'', JStr (parsed_type v)),
           (''path'', JArr (map JStr path)),
           (''message'', JStr (if v = None then ''Required''
              else ''Expected '' @ expected @ '', received '' @ parsed_type v))]"

definition too_small :: "nat \<Rightarrow> string list \<Rightarrow> json" where
  "too_small n path =
     JObj [(''code'', JStr ''too_small''),
           (''minimum'', JNum (int n)),
           (''type'', JStr ''string''),
           (''inclusive'', JBool True),
           (''exact'', JBool False),
           (''message'', JStr (''String must contain at least '' @ nat_str n @ '' character(s)'')),
           (''path'', JArr (map JStr path))]"

fun zod_check :: "zod_type \<Rightarrow> string list \<Rightarrow> json option \<Rightarrow> json list + json option" where
  "zod_check ZString path v =
     (case v of Some (JStr s) \<Rightarrow> Inr v | _ \<Rightarrow> Inl [invalid_type ''string'' v path])"
| "zod_check (ZStringMin n) path v =
     (case v of
        Some (JStr s) \<Rightarrow> if length s < n then Inl [too_small n path] else Inr v
      | _ \<Rightarrow> Inl [invalid_type ''string'' v path])"
| "zod_check ZNumber path v =
     (case v of Some (JNum n) \<Rightarrow> Inr v | _ \<Rightarrow> Inl [invalid_type ''number'' v path])"
| "zod_check (ZOptional t) path v =
     (if v = None then Inr None else zod_check t path v)"

fun field_issues :: "string \<times> (json list + json option) \<Rightarrow> json list" where
  "field_issues (k, Inl issues) = issues"
| "field_issues (k, Inr v) = []"

fun field_value :: "string \<times> (json list + json option) \<Rightarrow> string \<times> json option" where
  "field_value (k, Inl issues) = (k, None)"
| "field_value (k, Inr v) = (k, v)"

definition check_fields ::
  "zod_object \<Rightarrow> json \<Rightarrow> (string \<times> (json list + json option)) list" where
  "check_fields shape data = map (\<lambda>(k, t). (k, zod_check t [k] (get_prop data k))) shape"

definition schema_parse :: "zod_object \<Rightarrow> json option \<Rightarrow> json list + json" where
  "schema_parse shape data =
     (case data of
        Some (JObj kvs) \<Rightarrow>
          (let results = check_fields shape (JObj kvs);
               issues = concat (map field_issues results)
           in if issues = [] then Inr (literal (map field_value results)) else Inl issues)
      | _ \<Rightarrow> Inl [invalid_type ''object'' data []])"

subsection \<open>The message of a ZodError\<close>

text \<open>
  zod 3 gives a \<^verbatim>\<open>ZodError\<close> the message \<^verbatim>\<open>JSON.stringify(issues, null, 2)\<close>: the
  issues as JSON text, one member or element per line, indented by two spaces per level.
\<close>

definition hex_char :: "nat \<Rightarrow> char" where
  "hex_char d = (if d < 10 then char_of (48 + d) else char_of (87 + d))"

definition quote_char :: "char \<Rightarrow> string" where
  "quote_char c =
     (if c = CHR 0x22 then [CHR 0x5C, CHR 0x22]
      else if c = CHR 0x5C then [CHR 0x5C, CHR 0x5C]
      else if c = CHR 0x08 then [CHR 0x5C, CHR ''b'']
      else if c = CHR 0x0C then [CHR 0x5C, CHR ''f'']
      else if c = CHR 0x0A then [CHR 0x5C, CHR ''n'']
      else if c = CHR 0x0D then [CHR 0x5C, CHR ''r'']
      else if c = CHR 0x09 then [CHR 0x5C, CHR ''t'']
      else if (of_char c :: nat) < 32 then
        [CHR 0x5C, CHR ''u'', CHR ''0'', CHR ''0'',
         hex_char (of_char c div 16), hex_char (of_char c mod 16)]
      else [c])"

definition quote :: "string \<Rightarrow> string" where
  "quote s = [CHR 0x22] @ concat (map quote_char s) @ [CHR 0x22]"

fun stringify2 :: "string \<Rightarrow> json \<Rightarrow> string"
  and stringify2_elems :: "string \<Rightarrow> json list \<Rightarrow> string list"
  and stringify2_members :: "string \<Rightarrow> (string \<times> json) list \<Rightarrow> string list" where
  "stringify2 ind JNull = ''null''"
| "stringify2 ind (JBool b) = (if b then ''true'' else ''false'')"
| "stringify2 ind (JNum n) = int_str n"
| "stringify2 ind (JStr s) = quote s"
| "stringify2 ind (JArr xs) =
     (if xs = [] then ''[]''
      else ''['' @ [CHR 0x0A] @ join ('','' @ [CHR 0x0A]) (stringify2_elems (ind @ ''  '') xs)
           @ [CHR 0x0A] @ ind @ '']'')"
| "stringify2 ind (JObj kvs) =
     (if kvs = [] then ''{}''
      else ''{'' @ [CHR 0x0A] @ join ('','' @ [CHR 0x0A]) (stringify2_members (ind @ ''  '') kvs)
           @ [CHR 0x0A] @ ind @ ''}'')"
| "stringify2_elems ind [] = []"
| "stringify2_elems ind (x # xs) = (ind @ stringify2 ind x) # stringify2_elems ind xs"
| "stringify2_members ind [] = []"
| "stringify2_members ind ((k, v) # kvs) =
     (ind @ quote k @ '': '' @ stringify2 ind v) # stringify2_members ind kvs"

definition zod_message :: "json list \<Rightarrow> string" where
  "zod_message issues = stringify2 [] (JArr issues)"

text \<open>\<^verbatim>\<open>err.message\<close>.\<close>

fun err_message :: "platform \<Rightarrow> js_error \<Rightarrow> string" where
  "err_message P (Error m) = m"
| "err_message P (ZodError issues) = zod_message issues"
| "err_message P (TypeError t) = type_error_message P t"

section \<open>The process: standard output and promises\<close>

text \<open>
  \<open>stdout\<close> holds the lines written so far, oldest first, each as the JSON value that
  \<^verbatim>\<open>JSON.stringify\<close> serialises. \<open>unhandled\<close> collects the rejections of promises that
  nobody awaits; what the runtime then does (current versions of Node end the process)
  is outside the model. One line of input is handled to its end before the next one.
\<close>

record process =
  stdout :: "json list"
  unhandled :: "js_error list"

datatype promise = Fulfilled | Rejected js_error

definition send :: "json \<Rightarrow> 'a process_scheme \<Rightarrow> 'a process_scheme" where
  "send obj st = st\<lparr>stdout := stdout st @ [obj]\<rparr>"

text \<open>A listener that does not await the promise leaves a rejection unhandled.\<close>

fun settle :: "promise \<times> 'a process_scheme \<Rightarrow> 'a process_scheme" where
  "settle (Fulfilled, st) = st"
| "settle (Rejected e, st) = st\<lparr>unhandled := unhandled st @ [e]\<rparr>"

section \<open>The simple server\<close>

record tool =
  description :: string
  schema :: zod_object
  handler :: "json \<Rightarrow> json"

subsection \<open>Addition of doubles\<close>

text \<open>
  \<^verbatim>\<open>a + b\<close> on numbers is IEEE 754 addition: the exact sum rounded to the nearest double,
  a tie to the one with the even significand, and to \<^verbatim>\<open>Infinity\<close> from
  \<open>2^1024 - 2^970\<close> on. A double has a significand of 53 bits, so an integer below
  \<open>2^53\<close> in magnitude is a double, and a larger one is rounded at the bit that is 53
  places below its leading bit. \<open>round_double n\<close> is the double nearest to the integer
  \<open>n\<close>, \<open>None\<close> for an infinity; it is \<open>n\<close> itself when \<open>n\<close> is a double, and it is what
  \<^verbatim>\<open>JSON.parse\<close> makes of the literal \<open>n\<close> otherwise.
\<close>

fun bit_length :: "nat \<Rightarrow> nat" where
  "bit_length n = (if n = 0 then 0 else Suc (bit_length (n div 2)))"

definition round_double :: "int \<Rightarrow> int option" where
  "round_double n =
     (let a = nat \<bar>n\<bar> in
      if a < 2 ^ 53 then Some n
      else
        (let k = bit_length a - 53;
             q = a div 2 ^ k;
             r = a mod 2 ^ k;
             up = (2 ^ k < 2 * r \<or> (2 * r = 2 ^ k \<and> odd q));
             m = (if up then q + 1 else q) * 2 ^ k
         in if 2 ^ 1024 \<le> m then None else Some (sgn n * int m)))"

text \<open>
  The sum of two doubles. An infinite operand gives an infinity or \<^verbatim>\<open>NaN\<close>, both
  \<open>None\<close> here.
\<close>

definition double_add :: "int \<Rightarrow> int \<Rightarrow> int option" where
  "double_add a b =
     (case (round_double a, round_double b) of
        (Some x, Some y) \<Rightarrow> round_double (x + y)
      | _ \<Rightarrow> None)"

text \<open>
  \<^verbatim>\<open>JSON.stringify\<close> writes a finite number as it is and \<^verbatim>\<open>null\<close> for an infinity or
  \<^verbatim>\<open>NaN\<close>.
\<close>

fun written_number :: "int option \<Rightarrow> json" where
  "written_number (Some n) = JNum n"
| "written_number None = JNull"

subsection \<open>The tools\<close>

text \<open>
  \<^verbatim>\<open>message.length\<close> of a string and \<^verbatim>\<open>a + b\<close> of two numbers, the latter as it is
  written to the output. A handler only receives what its schema has accepted, so no
  other operand reaches them (lemmas \<open>echo_parsed\<close> and \<open>add_parsed\<close>); the last
  equations stand for those operands, which the model does not cover.
\<close>

fun js_length :: "json option \<Rightarrow> json option" where
  "js_length (Some (JStr s)) = Some (JNum (int (length s)))"
| "js_length v = None"

fun js_plus :: "json option \<Rightarrow> json option \<Rightarrow> json option" where
  "js_plus (Some (JNum a)) (Some (JNum b)) = Some (written_number (double_add a b))"
| "js_plus v w = None"

definition echo_handler :: "json \<Rightarrow> json" where
  "echo_handler parsed =
     (let message = get_prop parsed ''message''
      in literal [(''echoed'', message), (''length'', js_length message)])"

definition add_handler :: "json \<Rightarrow> json" where
  "add_handler parsed =
     (let a = get_prop parsed ''a''; b = get_prop parsed ''b''
      in literal [(''sum'', js_plus a b)])"

definition simple_tools :: "(string \<times> tool) list" where
  "simple_tools =
     [(''echo'', \<lparr>description = ''Echo back a message'',
                 schema = [(''message'', ZString)],
                 handler = echo_handler\<rparr>),
      (''add'', \<lparr>description = ''Add two numbers'',
                schema = [(''a'', ZNumber), (''b'', ZNumber)],
                handler = add_handler\<rparr>)]"

record simple_server = process +
  nextId :: int

text \<open>
  \<^verbatim>\<open>listCapabilities\<close>. The \<^verbatim>\<open>inputSchema\<close> of every tool is \<^verbatim>\<open>JSON.parse('{}')\<close>, the
  empty object.
\<close>

definition simple_listCapabilities :: json where
  "simple_listCapabilities =
     JArr (map (\<lambda>(name, t). JObj [(''name'', JStr name),
                                   (''description'', JStr (description t)),
                                   (''inputSchema'', JObj [])]) simple_tools)"

text \<open>
  \<^verbatim>\<open>tool.call\<close>, the same in both servers: the result of the handler, or the exception
  thrown on the way.
\<close>

definition tool_call :: "(string \<times> tool) list \<Rightarrow> json option \<Rightarrow> js_error + json" where
  "tool_call tools params =
     (let p = or_empty_object params;
          name = get_prop p ''name'';
          args = get_prop p ''arguments''
      in case property_key name of
           None \<Rightarrow> Inl (TypeError NotPrimitive)
         | Some key \<Rightarrow>
            (case get_member tools key of
               Missing \<Rightarrow> Inl (Error (''Unknown tool: '' @ key))
             | Inherited \<Rightarrow> Inl (TypeError (ReadOfUndefined ''parse''))
             | Own tool \<Rightarrow>
                (case schema_parse (schema tool) args of
                   Inl issues \<Rightarrow> Inl (ZodError issues)
                 | Inr parsed \<Rightarrow> Inr (handler tool parsed))))"

text \<open>
  The body of the \<^verbatim>\<open>try\<close> block of \<^verbatim>\<open>handleRequest\<close>: the object it passes to
  \<^verbatim>\<open>send\<close>, or the exception it throws.
\<close>

definition simple_try :: "json option \<Rightarrow> json option \<Rightarrow> json option \<Rightarrow> js_error + json" where
  "simple_try rid method params =
     (if method = Some (JStr ''capability.list'') then
        Inr (literal [(''jsonrpc'', Some (JStr ''2.0'')), (''id'', rid),
                      (''result'', Some (JObj [(''tools'', simple_listCapabilities)]))])
      else if method = Some (JStr ''tool.call'') then
        (case tool_call simple_tools params of
           Inl err \<Rightarrow> Inl err
         | Inr result \<Rightarrow>
             Inr (literal [(''jsonrpc'', Some (JStr ''2.0'')), (''id'', rid),
                           (''result'', Some result)]))
      else Inl (Error ''Method not found''))"

text \<open>The \<^verbatim>\<open>catch\<close> block: the envelope sent for an exception.\<close>

definition simple_catch :: "platform \<Rightarrow> json option \<Rightarrow> js_error \<Rightarrow> json" where
  "simple_catch P rid err =
     (case err of
        ZodError issues \<Rightarrow>
          literal [(''jsonrpc'', Some (JStr ''2.0'')), (''id'', rid),
                   (''error'', Some (JObj [(''code'', JNum (- 32602)),
                                           (''message'', JStr ''Invalid params''),
                                           (''data'', JArr issues)]))]
      | _ \<Rightarrow>
          literal [(''jsonrpc'', Some (JStr ''2.0'')), (''id'', rid),
                   (''error'', Some (JObj [(''code'', JNum (- 32000)),
                                           (''message'', JStr (err_message P err))]))])"

text \<open>
  \<^verbatim>\<open>handleRequest\<close> is an \<^verbatim>\<open>async\<close> function. The destructuring of its argument stands
  before the \<^verbatim>\<open>try\<close>: on \<^verbatim>\<open>null\<close> it throws, and the promise is rejected.
\<close>

definition simple_handleRequest ::
  "platform \<Rightarrow> json \<Rightarrow> 'a process_scheme \<Rightarrow> promise \<times> 'a process_scheme" where
  "simple_handleRequest P message st =
     (if message = JNull then (Rejected (TypeError DestructureNull), st)
      else
        (let rid = get_prop message ''id'';
             method = get_prop message ''method'';
             params = get_prop message ''params''
         in case simple_try rid method params of
              Inr envelope \<Rightarrow> (Fulfilled, send envelope st)
            | Inl err \<Rightarrow> (Fulfilled, send (simple_catch P rid err) st)))"

text \<open>The listener of the \<^verbatim>\<open>line\<close> event.\<close>

definition simple_on_line :: "platform \<Rightarrow> simple_server \<Rightarrow> string \<Rightarrow> simple_server" where
  "simple_on_line P st line =
     (if trim line = [] then st
      else case json_parse P line of
        None \<Rightarrow>
          send (JObj [(''jsonrpc'', JStr ''2.0''), (''id'', JNum (nextId st)),
                      (''error'', JObj [(''code'', JNum (- 32700)),
                                        (''message'', JStr ''Parse error'')])])
               (st\<lparr>nextId := nextId st + 1\<rparr>)
      | Some msg \<Rightarrow> settle (simple_handleRequest P msg st))"

text \<open>The server at start: the counter at 1 and the banner written.\<close>

definition simple_start :: simple_server where
  "simple_start =
     send (JObj [(''notice'', JStr ''MCP simple demo server ready. Send JSON-RPC lines.'')])
          \<lparr>stdout = [], unhandled = [], nextId = 1\<rparr>"

definition simple_serve :: "platform \<Rightarrow> simple_server \<Rightarrow> string list \<Rightarrow> simple_server" where
  "simple_serve P st lines = foldl (simple_on_line P) st lines"

section \<open>The prompts server\<close>

subsection \<open>The summary tool\<close>

text \<open>
  \<^verbatim>\<open>content.split(/\s+/)\<close>: the pieces between the maximal runs of whitespace, an empty
  piece before a leading run and after a trailing one. \<open>in_run\<close> says that the previous
  character was whitespace, \<open>cur\<close> is the piece read so far.
\<close>

fun split_spaces :: "bool \<Rightarrow> string \<Rightarrow> string \<Rightarrow> string list" where
  "split_spaces in_run cur [] = [cur]"
| "split_spaces in_run cur (c # cs) =
     (if is_space c then
        (if in_run then split_spaces True cur cs else cur # split_spaces True [] cs)
      else split_spaces False (cur @ [c]) cs)"

text \<open>
  For a string, \<^verbatim>\<open>content.split(/\s+/).slice(0, 12).join(' ') + '...'\<close>; the schema
  admits nothing else (lemma \<open>summary_parsed\<close>).
\<close>

fun summary_text :: "json option \<Rightarrow> json option" where
  "summary_text (Some (JStr content)) =
     Some (JStr (join '' '' (take 12 (split_spaces False [] content)) @ ''...''))"
| "summary_text v = None"

definition markdown_summary_handler :: "json \<Rightarrow> json" where
  "markdown_summary_handler parsed =
     (let content = get_prop parsed ''content''
      in literal [(''summary'', summary_text content)])"

definition prompts_tools :: "(string \<times> tool) list" where
  "prompts_tools =
     [(''markdown_summary'',
       \<lparr>description = ''Summarize a block of markdown text (simulated)'',
        schema = [(''content'', ZStringMin 1)],
        handler = markdown_summary_handler\<rparr>)]"

subsection \<open>The prompt templates\<close>

record prompt =
  prompt_description :: string
  inputSchema :: zod_object
  template :: string

definition promptTemplates :: "(string \<times> prompt) list" where
  "promptTemplates =
     [(''qa/basic'',
       \<lparr>prompt_description = ''Simple Q&A wrapper'',
        inputSchema = [(''question'', ZString), (''context'', ZOptional ZString)],
        template = ''You are a helpful system. Answer the user question.'' @ [CHR 0x0A] @
                   ''Context: {{context}}'' @ [CHR 0x0A] @
                   ''Question: {{question}}'' @ [CHR 0x0A] @
                   ''Answer:''\<rparr>),
      (''refactor/function'',
       \<lparr>prompt_description = ''Refactor function prompt'',
        inputSchema = [(''code'', ZString), (''goal'', ZString)],
        template = ''Refactor the following code to achieve: {{goal}}'' @ [CHR 0x0A, CHR 0x0A] @
                   ''Code:'' @ [CHR 0x0A] @
                   ''{{code}}'' @ [CHR 0x0A, CHR 0x0A] @
                   ''Refactored:''\<rparr>)]"

subsection \<open>Rendering a template (Mustache)\<close>

text \<open>
  The templates of the registry hold text and variable tags \<^verbatim>\<open>{{name}}\<close> with plain
  names, and this is what the model renders: the text as it is, and for a tag the value
  of the name in the view, HTML-escaped, nothing for a missing value. A tag that is not
  closed makes \<^verbatim>\<open>Mustache.render\<close> throw.
\<close>

definition escape_char :: "char \<Rightarrow> string" where
  "escape_char c =
     (if c = CHR ''&'' then ''&amp;''
      else if c = CHR ''<'' then ''&lt;''
      else if c = CHR ''>'' then ''&gt;''
      else if c = CHR 0x22 then ''&quot;''
      else if c = CHR 0x27 then ''&#39;''
      else if c = CHR ''/'' then ''&#x2F;''
      else if c = CHR 0x60 then ''&#x60;''
      else if c = CHR ''='' then ''&#x3D;''
      else [c])"

definition escapeHtml :: "string \<Rightarrow> string" where
  "escapeHtml s = concat (map escape_char s)"

fun escapedValue :: "json option \<Rightarrow> js_error + string" where
  "escapedValue None = Inr []"
| "escapedValue (Some JNull) = Inr []"
| "escapedValue (Some (JNum n)) = Inr (int_str n)"
| "escapedValue (Some v) =
     (case to_string v of
        None \<Rightarrow> Inl (TypeError NotPrimitive)
      | Some s \<Rightarrow> Inr (escapeHtml s))"

text \<open>
  \<open>close_tag s\<close>: \<open>s\<close> starts with optional whitespace and \<^verbatim>\<open>}}\<close>; the result is what
  follows. \<open>scan_name\<close> reads the name of a tag up to the first such place, \<open>open_tag\<close>
  reads \<^verbatim>\<open>{{\<close> and the whitespace after it.
\<close>

definition close_tag :: "string \<Rightarrow> string option" where
  "close_tag s =
     (case dropWhile is_space s of
        c # d # rest \<Rightarrow> if c = CHR ''}'' \<and> d = CHR ''}'' then Some rest else None
      | _ \<Rightarrow> None)"

fun scan_name :: "string \<Rightarrow> string \<Rightarrow> (string \<times> string) option" where
  "scan_name acc [] = None"
| "scan_name acc (c # cs) =
     (case close_tag (c # cs) of
        Some rest \<Rightarrow> Some (acc, rest)
      | None \<Rightarrow> scan_name (acc @ [c]) cs)"

definition open_tag :: "string \<Rightarrow> string option" where
  "open_tag s =
     (case s of
        c # d # rest \<Rightarrow>
          if c = CHR ''{'' \<and> d = CHR ''{'' then Some (dropWhile is_space rest) else None
      | _ \<Rightarrow> None)"

function render_from :: "json \<Rightarrow> nat \<Rightarrow> string \<Rightarrow> js_error + string" where
  "render_from view n [] = Inr []"
| "render_from view n (c # cs) =
     (case open_tag (c # cs) of
        None \<Rightarrow>
          (case render_from view n cs of
             Inl e \<Rightarrow> Inl e
           | Inr out \<Rightarrow> Inr (c # out))
      | Some inner \<Rightarrow>
          (case scan_name [] inner of
             None \<Rightarrow> Inl (Error (''Unclosed tag at '' @ nat_str n))
           | Some (name, rest) \<Rightarrow>
               (case escapedValue (get_prop view name) of
                  Inl e \<Rightarrow> Inl e
                | Inr piece \<Rightarrow>
                    (case render_from view n rest of
                       Inl e \<Rightarrow> Inl e
                     | Inr out \<Rightarrow> Inr (piece @ out)))))"
  by pat_completeness auto

termination
proof (relation "measure (\<lambda>(view, n, s). length s)")
  show "wf (measure (\<lambda>(view, n, s). length s))" by simp
next
  fix view :: json and n :: nat and c :: char and cs :: string
  show "((view, n, cs), (view, n, c # cs)) \<in> measure (\<lambda>(view, n, s). length s)"
    by simp
next
  fix view :: json and n :: nat and c :: char and cs inner :: string
    and x :: "string \<times> string" and name rest :: string
  assume o: "open_tag (c # cs) = Some inner"
    and s: "scan_name [] inner = Some x" and x: "(name, rest) = x"
  have closed: "length r < length t" if "close_tag t = Some r" for t r
  proof -
    have "length (dropWhile is_space t) \<le> length t"
      by (rule length_dropWhile_le)
    moreover from that have "length r < length (dropWhile is_space t)"
      by (auto simp: close_tag_def split: list.splits if_splits)
    ultimately show ?thesis by simp
  qed
  have scanned: "length r < length t" if "scan_name acc t = Some (nm, r)" for acc t nm r
    using that
  proof (induction t arbitrary: acc)
    case Nil
    then show ?case by simp
  next
    case (Cons d ds)
    show ?case
    proof (cases "close_tag (d # ds)")
      case None
      with Cons.prems have "scan_name (acc @ [d]) ds = Some (nm, r)" by simp
      then have "length r < length ds" by (rule Cons.IH)
      then show ?thesis by simp
    next
      case (Some q)
      with Cons.prems have "q = r" by simp
      with Some have "close_tag (d # ds) = Some r" by simp
      then show ?thesis by (rule closed)
    qed
  qed
  from o obtain e f where cs: "c # cs = e # f # drop 1 cs"
    and inner: "inner = dropWhile is_space (drop 1 cs)"
    by (auto simp: open_tag_def split: list.splits if_splits)
  have "length (dropWhile is_space (drop 1 cs)) \<le> length (drop 1 cs)"
    by (rule length_dropWhile_le)
  with inner have "length inner < length (c # cs)" by simp
  moreover from s x have "length rest < length inner"
    using scanned [of "[]" inner name rest] by simp
  ultimately show "((view, n, rest), (view, n, c # cs)) \<in> measure (\<lambda>(view, n, s). length s)"
    by simp
qed

definition mustache_render :: "string \<Rightarrow> json \<Rightarrow> js_error + string" where
  "mustache_render tpl view = render_from view (length tpl) tpl"

subsection \<open>Dispatch\<close>

definition name_description :: "string \<Rightarrow> string \<Rightarrow> json" where
  "name_description name d = JObj [(''name'', JStr name), (''description'', JStr d)]"

definition prompts_listCapabilities :: json where
  "prompts_listCapabilities =
     JObj [(''tools'', JArr (map (\<lambda>(name, t). name_description name (description t))
                               prompts_tools)),
           (''prompts'', JArr (map (\<lambda>(name, p). name_description name (prompt_description p))
                                 promptTemplates))]"

text \<open>\<^verbatim>\<open>prompts.build\<close>: the rendered text, or the exception thrown on the way.\<close>

definition prompts_build :: "json option \<Rightarrow> js_error + string" where
  "prompts_build params =
     (let q = or_empty_object params;
          name = get_prop q ''name'';
          variables = get_prop q ''variables''
      in case property_key name of
           None \<Rightarrow> Inl (TypeError NotPrimitive)
         | Some key \<Rightarrow>
            (case get_member promptTemplates key of
               Missing \<Rightarrow> Inl (Error (''Unknown prompt: '' @ key))
             | Inherited \<Rightarrow> Inl (TypeError (ReadOfUndefined ''parse''))
             | Own p \<Rightarrow>
                (case schema_parse (inputSchema p) (Some (or_empty_object variables)) of
                   Inl issues \<Rightarrow> Inl (ZodError issues)
                 | Inr parsed \<Rightarrow> mustache_render (template p) parsed)))"

text \<open>The \<^verbatim>\<open>switch\<close> inside the \<^verbatim>\<open>try\<close> block of the prompts server.\<close>

definition prompts_try :: "json option \<Rightarrow> json option \<Rightarrow> json option \<Rightarrow> js_error + json" where
  "prompts_try rid method params =
     (if method = Some (JStr ''capability.list'') then
        Inr (literal [(''jsonrpc'', Some (JStr ''2.0'')), (''id'', rid),
                      (''result'', Some prompts_listCapabilities)])
      else if method = Some (JStr ''tool.call'') then
        (case tool_call prompts_tools params of
           Inl e \<Rightarrow> Inl e
         | Inr result \<Rightarrow>
             Inr (literal [(''jsonrpc'', Some (JStr ''2.0'')), (''id'', rid),
                           (''result'', Some result)]))
      else if method = Some (JStr ''prompts.list'') then
        Inr (literal [(''jsonrpc'', Some (JStr ''2.0'')), (''id'', rid),
                      (''result'',
                       Some (JArr (map (\<lambda>(name, p). name_description name (prompt_description p))
                                       promptTemplates)))])
      else if method = Some (JStr ''prompts.build'') then
        (case prompts_build params of
           Inl e \<Rightarrow> Inl e
         | Inr rendered \<Rightarrow>
             Inr (literal [(''jsonrpc'', Some (JStr ''2.0'')), (''id'', rid),
                           (''result'', Some (JObj [(''prompt'', JStr rendered)]))]))
      else Inl (Error ''Method not found''))"

definition prompts_catch :: "platform \<Rightarrow> json option \<Rightarrow> js_error \<Rightarrow> json" where
  "prompts_catch P rid e =
     literal [(''jsonrpc'', Some (JStr ''2.0'')), (''id'', rid),
              (''error'', Some (JObj [(''code'', JNum (- 32000)),
                                      (''message'', JStr (err_message P e))]))]"

definition prompts_handleRequest ::
  "platform \<Rightarrow> json \<Rightarrow> 'a process_scheme \<Rightarrow> promise \<times> 'a process_scheme" where
  "prompts_handleRequest P msg st =
     (if msg = JNull then (Rejected (TypeError DestructureNull), st)
      else
        (let rid = get_prop msg ''id'';
             method = get_prop msg ''method'';
             params = get_prop msg ''params''
         in case prompts_try rid method params of
              Inr envelope \<Rightarrow> (Fulfilled, send envelope st)
            | Inl e \<Rightarrow> (Fulfilled, send (prompts_catch P rid e) st)))"

text \<open>
  The listener of the prompts server. Its \<^verbatim>\<open>try\<close> encloses the call of
  \<^verbatim>\<open>handleRequest\<close> too, but an \<^verbatim>\<open>async\<close> function never throws at the call: only the
  SyntaxError of \<^verbatim>\<open>JSON.parse\<close> reaches the \<^verbatim>\<open>catch\<close>.
\<close>

definition prompts_on_line :: "platform \<Rightarrow> process \<Rightarrow> string \<Rightarrow> process" where
  "prompts_on_line P st line =
     (if trim line = [] then st
      else case json_parse P line of
        None \<Rightarrow>
          send (JObj [(''jsonrpc'', JStr ''2.0''), (''id'', JNull),
                      (''error'', JObj [(''code'', JNum (- 32700)),
                                        (''message'', JStr ''Parse error'')])]) st
      | Some msg \<Rightarrow> settle (prompts_handleRequest P msg st))"

definition prompts_start :: process where
  "prompts_start =
     send (JObj [(''notice'', JStr ''Prompts server ready'')]) \<lparr>stdout = [], unhandled = []\<rparr>"

definition prompts_serve :: "platform \<Rightarrow> process \<Rightarrow> string list \<Rightarrow> process" where
  "prompts_serve P st lines = foldl (prompts_on_line P) st lines"

section \<open>An example platform\<close>

text \<open>
  The examples below run on a platform with V8's wording of the TypeErrors and with
  \<^verbatim>\<open>JSON.parse\<close> tabulated on the JSON lines the examples use. Of the other lines the
  examples use only \<^verbatim>\<open>{\<close>, which is not JSON, and blank lines, which are not parsed.
\<close>

fun v8_message :: "type_error \<Rightarrow> string" where
  "v8_message DestructureNull =
     ''Cannot destructure property '' @ [CHR 0x27] @ ''id'' @ [CHR 0x27] @ '' of '' @
     [CHR 0x27] @ ''message'' @ [CHR 0x27] @ '' as it is null.''"
| "v8_message (ReadOfUndefined k) =
     ''Cannot read properties of undefined (reading '' @ [CHR 0x27] @ k @ [CHR 0x27] @ '')''"
| "v8_message NotPrimitive = ''Cannot convert object to primitive value''"

definition add_request :: json where
  "add_request =
     JObj [(''jsonrpc'', JStr ''2.0''), (''id'', JNum 2), (''method'', JStr ''tool.call''),
           (''params'', JObj [(''name'', JStr ''add''),
                              (''arguments'', JObj [(''a'', JNum 2), (''b'', JNum 5)])])]"

definition example_parse :: "string \<Rightarrow> json option" where
  \<open>example_parse line =
     (if line = ''{"jsonrpc":"2.0","id":2,"method":"tool.call","params":{"name":"add","arguments":{"a":2,"b":5}}}''
        then Some add_request
      else if line = ''{"jsonrpc":"2.0","id":1,"method":"capability.list"}''
        then Some (JObj [(''jsonrpc'', JStr ''2.0''), (''id'', JNum 1),
                         (''method'', JStr ''capability.list'')])
      else if line = ''null'' then Some JNull
      else if line = ''42'' then Some (JNum 42)
      else None)\<close>

definition example_platform :: platform where
  "example_platform = \<lparr>json_parse = example_parse, type_error_message = v8_message\<rparr>"

section \<open>Reading the output\<close>

text \<open>A key is present in a written envelope.\<close>

definition has_key :: "json \<Rightarrow> string \<Rightarrow> bool" where
  "has_key v k = (get_prop v k \<noteq> None)"

text \<open>The number of places of a text at which a given string starts.\<close>

fun occurrences :: "string \<Rightarrow> string \<Rightarrow> nat" where
  "occurrences needle [] = (if needle = [] then 1 else 0)"
| "occurrences needle (c # cs) =
     (if take (length needle) (c # cs) = needle then 1 else 0) + occurrences needle cs"

section \<open>What the schemas let through\<close>






section \<open>The sum of two numbers\<close>

text \<open>
  Below \<open>2^53\<close> the sum of two doubles is the exact sum; beyond, it is rounded, and
  from \<open>2^1024\<close> on it is written as \<^verbatim>\<open>null\<close>.
\<close>

lemma round_double_small: "\<bar>n\<bar> < 2 ^ 53 \<Longrightarrow> round_double n = Some n"
  by (simp add: round_double_def Let_def nat_less_iff)

lemma double_add_exact:
  "\<bar>a\<bar> < 2 ^ 53 \<Longrightarrow> \<bar>b\<bar> < 2 ^ 53 \<Longrightarrow> \<bar>a + b\<bar> < 2 ^ 53 \<Longrightarrow>
     double_add a b = Some (a + b)"
  by (simp add: double_add_def round_double_small)

lemma add_handler_sum:
  "add_handler (JObj [(''a'', JNum x), (''b'', JNum y)]) =
     JObj [(''sum'', written_number (double_add x y))]"
  by (simp add: add_handler_def literal_def)

lemma add_handler_rounds:
  "add_handler (JObj [(''a'', JNum 9007199254740992), (''b'', JNum 1)]) =
     JObj [(''sum'', JNum 9007199254740992)]"
  "add_handler (JObj [(''a'', JNum 9007199254740992), (''b'', JNum 3)]) =
     JObj [(''sum'', JNum 9007199254740996)]"
  by (simp_all add: add_handler_def literal_def double_add_def round_double_def Let_def)

lemma add_handler_overflows:
  "add_handler (JObj [(''a'', JNum (2 ^ 1023)), (''b'', JNum (2 ^ 1023))]) =
     JObj [(''sum'', JNull)]"
proof -
  have b: "bit_length (2 ^ n) = Suc n" for n
    by (induction n) simp_all
  have "round_double (2 ^ 1023) = Some (2 ^ 1023)"
    using b [of 1023] by (simp add: round_double_def Let_def)
  moreover have "round_double (2 ^ 1023 + 2 ^ 1023) = None"
  proof -
    have "(2 :: int) ^ 1023 + 2 ^ 1023 = 2 ^ 1024" by simp
    moreover have "round_double (2 ^ 1024) = None"
      using b [of 1024] by (simp add: round_double_def Let_def)
    ultimately show ?thesis by simp
  qed
  ultimately show ?thesis
    by (simp add: add_handler_def literal_def double_add_def)
qed

section \<open>Calling a tool\<close>




section \<open>Envelopes\<close>

lemma result_envelope:
  "get_prop (literal [(''jsonrpc'', Some v), (''id'', rid), (''result'', Some r)]) ''id'' = rid"
  "get_prop (literal [(''jsonrpc'', Some v), (''id'', rid), (''result'', Some r)]) ''result''
     = Some r"
  "get_prop (literal [(''jsonrpc'', Some v), (''id'', rid), (''result'', Some r)]) ''error''
     = None"
  by (cases rid; simp add: literal_def)+

lemma error_envelope:
  "get_prop (literal [(''jsonrpc'', Some v), (''id'', rid), (''error'', Some e)]) ''id'' = rid"
  "get_prop (literal [(''jsonrpc'', Some v), (''id'', rid), (''error'', Some e)]) ''result''
     = None"
  "get_prop (literal [(''jsonrpc'', Some v), (''id'', rid), (''error'', Some e)]) ''error''
     = Some e"
  by (cases rid; simp add: literal_def)+

lemma simple_try_envelope:
  "simple_try rid method params = Inr env \<Longrightarrow>
     get_prop env ''id'' = rid \<and> has_key env ''result'' \<and> \<not> has_key env ''error''"
  by (auto simp: simple_try_def has_key_def result_envelope split: if_splits sum.splits)

lemma simple_catch_envelope:
  "get_prop (simple_catch P rid err) ''id'' = rid \<and>
   \<not> has_key (simple_catch P rid err) ''result'' \<and> has_key (simple_catch P rid err) ''error''"
  by (cases err) (simp_all add: simple_catch_def has_key_def error_envelope)

lemma prompts_try_envelope:
  "prompts_try rid method params = Inr env \<Longrightarrow>
     get_prop env ''id'' = rid \<and> has_key env ''result'' \<and> \<not> has_key env ''error''"
  by (auto simp: prompts_try_def has_key_def result_envelope split: if_splits sum.splits)

lemma prompts_catch_envelope:
  "get_prop (prompts_catch P rid err) ''id'' = rid \<and>
   \<not> has_key (prompts_catch P rid err) ''result'' \<and> has_key (prompts_catch P rid err) ''error''"
  by (simp add: prompts_catch_def has_key_def error_envelope)

text \<open>
  A message other than \<^verbatim>\<open>null\<close> is answered by exactly one line, an envelope with the
  id of the message and with one of \<^verbatim>\<open>result\<close> and \<^verbatim>\<open>error\<close>.
\<close>

lemma simple_handleRequest_one:
  assumes "message \<noteq> JNull"
  shows "\<exists>env. simple_handleRequest P message st =
                 (Fulfilled, st\<lparr>stdout := stdout st @ [env]\<rparr>)
           \<and> get_prop env ''id'' = get_prop message ''id''
           \<and> has_key env ''result'' \<noteq> has_key env ''error''"
proof (cases "simple_try (get_prop message ''id'') (get_prop message ''method'')
                (get_prop message ''params'')")
  case (Inl err)
  with assms have "simple_handleRequest P message st =
      (Fulfilled, st\<lparr>stdout := stdout st @ [simple_catch P (get_prop message ''id'') err]\<rparr>)"
    by (simp add: simple_handleRequest_def send_def)
  with simple_catch_envelope [of P "get_prop message ''id''" err] show ?thesis by blast
next
  case (Inr env)
  with assms have "simple_handleRequest P message st =
      (Fulfilled, st\<lparr>stdout := stdout st @ [env]\<rparr>)"
    by (simp add: simple_handleRequest_def send_def)
  with simple_try_envelope [OF Inr] show ?thesis by blast
qed

lemma prompts_handleRequest_one:
  assumes "msg \<noteq> JNull"
  shows "\<exists>env. prompts_handleRequest P msg st =
                 (Fulfilled, st\<lparr>stdout := stdout st @ [env]\<rparr>)
           \<and> get_prop env ''id'' = get_prop msg ''id''
           \<and> has_key env ''result'' \<noteq> has_key env ''error''"
proof (cases "prompts_try (get_prop msg ''id'') (get_prop msg ''method'')
                (get_prop msg ''params'')")
  case (Inl err)
  with assms have "prompts_handleRequest P msg st =
      (Fulfilled, st\<lparr>stdout := stdout st @ [prompts_catch P (get_prop msg ''id'') err]\<rparr>)"
    by (simp add: prompts_handleRequest_def send_def)
  with prompts_catch_envelope [of P "get_prop msg ''id''" err] show ?thesis by blast
next
  case (Inr env)
  with assms have "prompts_handleRequest P msg st =
      (Fulfilled, st\<lparr>stdout := stdout st @ [env]\<rparr>)"
    by (simp add: prompts_handleRequest_def send_def)
  with prompts_try_envelope [OF Inr] show ?thesis by blast
qed

section \<open>Lines that are not JSON\<close>

lemma trim_empty_iff: "trim s = [] \<longleftrightarrow> (\<forall>c\<in>set s. is_space c)"
proof
  assume "trim s = []"
  then have a: "\<forall>c\<in>set (dropWhile is_space s). is_space c"
    by (simp add: trim_def dropWhile_eq_Nil_conv)
  have "dropWhile is_space s = []"
  proof (rule ccontr)
    assume n: "dropWhile is_space s \<noteq> []"
    then have "\<not> is_space (hd (dropWhile is_space s))" by (rule hd_dropWhile)
    moreover from n have "hd (dropWhile is_space s) \<in> set (dropWhile is_space s)" by simp
    ultimately show False using a by blast
  qed
  then show "\<forall>c\<in>set s. is_space c" by (simp add: dropWhile_eq_Nil_conv)
next
  assume "\<forall>c\<in>set s. is_space c"
  then have d: "dropWhile is_space s = []" by (simp add: dropWhile_eq_Nil_conv)
  show "trim s = []" unfolding trim_def d by simp
qed

text \<open>
  C2, as amended. A line that is not blank and that \<^verbatim>\<open>JSON.parse\<close> rejects makes the
  server write exactly one line, an error envelope with code -32700 and the message
  \<^verbatim>\<open>Parse error\<close>. Its id is \<^verbatim>\<open>null\<close> in the prompts server; in the simple server it is
  the counter \<open>nextId\<close>, which the error increments. Nothing else of the state changes,
  and the lines that follow are handled from that state.
\<close>

theorem parse_error_envelope:
  assumes "trim line \<noteq> []" and "json_parse P line = None"
  shows "prompts_on_line P st line =
           st\<lparr>stdout := stdout st @
              [JObj [(''jsonrpc'', JStr ''2.0''), (''id'', JNull),
                     (''error'', JObj [(''code'', JNum (- 32700)),
                                       (''message'', JStr ''Parse error'')])]]\<rparr>
       \<and> simple_on_line P st' line =
           st'\<lparr>stdout := stdout st' @
              [JObj [(''jsonrpc'', JStr ''2.0''), (''id'', JNum (nextId st')),
                     (''error'', JObj [(''code'', JNum (- 32700)),
                                       (''message'', JStr ''Parse error'')])]],
              nextId := nextId st' + 1\<rparr>
       \<and> prompts_serve P st (line # rest) = prompts_serve P (prompts_on_line P st line) rest
       \<and> simple_serve P st' (line # rest') = simple_serve P (simple_on_line P st' line) rest'"
  using assms
  by (simp add: prompts_on_line_def simple_on_line_def send_def prompts_serve_def
      simple_serve_def)

text \<open>
  Witness of C2: both servers on the line \<^verbatim>\<open>{\<close>, followed by the line \<^verbatim>\<open>42\<close>, which
  is answered in its turn.
\<close>

theorem parse_error_envelope_witness:
  "trim ''{'' \<noteq> [] \<and> json_parse example_platform ''{'' = None
   \<and> prompts_on_line example_platform prompts_start ''{'' =
       prompts_start\<lparr>stdout := stdout prompts_start @
          [JObj [(''jsonrpc'', JStr ''2.0''), (''id'', JNull),
                 (''error'', JObj [(''code'', JNum (- 32700)),
                                   (''message'', JStr ''Parse error'')])]]\<rparr>
   \<and> simple_on_line example_platform simple_start ''{'' =
       simple_start\<lparr>stdout := stdout simple_start @
          [JObj [(''jsonrpc'', JStr ''2.0''), (''id'', JNum 1),
                 (''error'', JObj [(''code'', JNum (- 32700)),
                                   (''message'', JStr ''Parse error'')])]],
          nextId := 2\<rparr>
   \<and> stdout (prompts_serve example_platform prompts_start [''{'', ''42'']) =
       stdout prompts_start @
          [JObj [(''jsonrpc'', JStr ''2.0''), (''id'', JNull),
                 (''error'', JObj [(''code'', JNum (- 32700)),
                                   (''message'', JStr ''Parse error'')])],
           JObj [(''jsonrpc'', JStr ''2.0''),
                 (''error'', JObj [(''code'', JNum (- 32000)),
                                   (''message'', JStr ''Method not found'')])]]
   \<and> stdout (simple_serve example_platform simple_start [''{'', ''42'']) =
       stdout simple_start @
          [JObj [(''jsonrpc'', JStr ''2.0''), (''id'', JNum 1),
                 (''error'', JObj [(''code'', JNum (- 32700)),
                                   (''message'', JStr ''Parse error'')])],
           JObj [(''jsonrpc'', JStr ''2.0''),
                 (''error'', JObj [(''code'', JNum (- 32000)),
                                   (''message'', JStr ''Method not found'')])]]"
proof -
  have t: "trim ''{'' \<noteq> []" by (simp add: trim_def is_space_def)
  have p: "json_parse example_platform ''{'' = None"
    by (simp add: example_platform_def example_parse_def)
  have n: "nextId simple_start = 1" by (simp add: simple_start_def send_def)
  have t42: "trim ''42'' \<noteq> []" by (simp add: trim_def is_space_def)
  have p42: "json_parse example_platform ''42'' = Some (JNum 42)"
    by (simp add: example_platform_def example_parse_def)
  have next_prompts: "stdout (prompts_serve example_platform st [''42'']) = stdout st @
           [JObj [(''jsonrpc'', JStr ''2.0''),
                 (''error'', JObj [(''code'', JNum (- 32000)),
                                   (''message'', JStr ''Method not found'')])]]" for st
    using t42 p42
    by (simp add: prompts_serve_def prompts_on_line_def prompts_handleRequest_def
        prompts_try_def prompts_catch_def literal_def send_def)
  have next_simple: "stdout (simple_serve example_platform st [''42'']) = stdout st @
           [JObj [(''jsonrpc'', JStr ''2.0''),
                 (''error'', JObj [(''code'', JNum (- 32000)),
                                   (''message'', JStr ''Method not found'')])]]" for st
    using t42 p42
    by (simp add: simple_serve_def simple_on_line_def simple_handleRequest_def
        simple_try_def simple_catch_def literal_def send_def)
  from parse_error_envelope [OF t p, of prompts_start simple_start "[''42'']" "[''42'']"]
    t p n next_prompts next_simple
  show ?thesis by simp
qed

text \<open>
  Counterexample to C2 as stated. On the line \<^verbatim>\<open>{\<close>, which is not JSON, the simple
  server writes an envelope whose id is 1, not \<^verbatim>\<open>null\<close>. On a line of two spaces, which
  is not JSON either, neither server writes anything.
\<close>

theorem parse_error_id_counterexample:
  "json_parse example_platform ''{'' = None
   \<and> stdout (simple_on_line example_platform simple_start ''{'') =
       stdout simple_start @
          [JObj [(''jsonrpc'', JStr ''2.0''), (''id'', JNum 1),
                 (''error'', JObj [(''code'', JNum (- 32700)),
                                   (''message'', JStr ''Parse error'')])]]
   \<and> get_prop (last (stdout (simple_on_line example_platform simple_start ''{''))) ''id''
       \<noteq> Some JNull
   \<and> json_parse example_platform ''  '' = None
   \<and> simple_on_line example_platform simple_start ''  '' = simple_start
   \<and> prompts_on_line example_platform prompts_start ''  '' = prompts_start"
  by (simp add: example_platform_def example_parse_def simple_on_line_def prompts_on_line_def
      trim_def is_space_def send_def simple_start_def)

section \<open>Arguments that fail validation\<close>

lemma schema_parse_issues: "schema_parse shape data = Inl issues \<Longrightarrow> issues \<noteq> []"
  by (auto simp: schema_parse_def Let_def split: option.splits json.splits if_splits)

text \<open>
  C3, as amended. When the arguments of a \<^verbatim>\<open>tool.call\<close> fail the schema of the tool that
  \<^verbatim>\<open>params.name\<close> resolves to, the simple server answers with an error envelope of code
  -32602 and message \<^verbatim>\<open>Invalid params\<close> whose \<^verbatim>\<open>data\<close> is the list of validation
  issues, which is not empty. The prompts server answers a failed validation, of the
  arguments of \<^verbatim>\<open>tool.call\<close> or of the variables of \<^verbatim>\<open>prompts.build\<close>, with code -32000
  and the message of the ZodError, and its error has no \<^verbatim>\<open>data\<close>.
\<close>

theorem validation_failure:
  assumes "get_prop msg ''params'' = Some (JObj ps)"
    and "property_key (map_of ps ''name'') = Some key"
  shows "(get_prop msg ''method'' = Some (JStr ''tool.call'')
          \<and> get_member simple_tools key = Own t
          \<and> schema_parse (schema t) (map_of ps ''arguments'') = Inl issues
          \<longrightarrow> issues \<noteq> [] \<and>
              simple_handleRequest P msg st =
                (Fulfilled, st\<lparr>stdout := stdout st @
                   [literal [(''jsonrpc'', Some (JStr ''2.0'')), (''id'', get_prop msg ''id''),
                      (''error'', Some (JObj [(''code'', JNum (- 32602)),
                                              (''message'', JStr ''Invalid params''),
                                              (''data'', JArr issues)]))]]\<rparr>))
       \<and> (get_prop msg ''method'' = Some (JStr ''tool.call'')
          \<and> get_member prompts_tools key = Own u
          \<and> schema_parse (schema u) (map_of ps ''arguments'') = Inl issues2
          \<longrightarrow> prompts_handleRequest P msg st =
                (Fulfilled, st\<lparr>stdout := stdout st @
                   [literal [(''jsonrpc'', Some (JStr ''2.0'')), (''id'', get_prop msg ''id''),
                      (''error'', Some (JObj [(''code'', JNum (- 32000)),
                                              (''message'', JStr (zod_message issues2))]))]]\<rparr>))
       \<and> (get_prop msg ''method'' = Some (JStr ''prompts.build'')
          \<and> get_member promptTemplates key = Own p
          \<and> schema_parse (inputSchema p) (Some (or_empty_object (map_of ps ''variables'')))
               = Inl issues3
          \<longrightarrow> prompts_handleRequest P msg st =
                (Fulfilled, st\<lparr>stdout := stdout st @
                   [literal [(''jsonrpc'', Some (JStr ''2.0'')), (''id'', get_prop msg ''id''),
                      (''error'', Some (JObj [(''code'', JNum (- 32000)),
                                              (''message'', JStr (zod_message issues3))]))]]\<rparr>))"
proof (intro conjI impI)
  from assms(1) have nonnull: "msg \<noteq> JNull" by auto
  assume a: "get_prop msg ''method'' = Some (JStr ''tool.call'')
          \<and> get_member simple_tools key = Own t
          \<and> schema_parse (schema t) (map_of ps ''arguments'') = Inl issues"
  then show "issues \<noteq> []" by (auto dest: schema_parse_issues)
  from a assms(2) have "tool_call simple_tools (Some (JObj ps)) = Inl (ZodError issues)"
    by (simp add: tool_call_def)
  with a assms(1) nonnull show "simple_handleRequest P msg st =
                (Fulfilled, st\<lparr>stdout := stdout st @
                   [literal [(''jsonrpc'', Some (JStr ''2.0'')), (''id'', get_prop msg ''id''),
                      (''error'', Some (JObj [(''code'', JNum (- 32602)),
                                              (''message'', JStr ''Invalid params''),
                                              (''data'', JArr issues)]))]]\<rparr>)"
    by (simp add: simple_handleRequest_def simple_try_def simple_catch_def send_def)
next
  from assms(1) have nonnull: "msg \<noteq> JNull" by auto
  assume a: "get_prop msg ''method'' = Some (JStr ''tool.call'')
          \<and> get_member prompts_tools key = Own u
          \<and> schema_parse (schema u) (map_of ps ''arguments'') = Inl issues2"
  with assms(2) have "tool_call prompts_tools (Some (JObj ps)) = Inl (ZodError issues2)"
    by (simp add: tool_call_def)
  with a assms(1) nonnull show "prompts_handleRequest P msg st =
                (Fulfilled, st\<lparr>stdout := stdout st @
                   [literal [(''jsonrpc'', Some (JStr ''2.0'')), (''id'', get_prop msg ''id''),
                      (''error'', Some (JObj [(''code'', JNum (- 32000)),
                                              (''message'', JStr (zod_message issues2))]))]]\<rparr>)"
    by (simp add: prompts_handleRequest_def prompts_try_def prompts_catch_def send_def)
next
  from assms(1) have nonnull: "msg \<noteq> JNull" by auto
  assume a: "get_prop msg ''method'' = Some (JStr ''prompts.build'')
          \<and> get_member promptTemplates key = Own p
          \<and> schema_parse (inputSchema p) (Some (or_empty_object (map_of ps ''variables'')))
               = Inl issues3"
  with assms(2) have "prompts_build (Some (JObj ps)) = Inl (ZodError issues3)"
    by (simp add: prompts_build_def)
  with a assms(1) nonnull show "prompts_handleRequest P msg st =
                (Fulfilled, st\<lparr>stdout := stdout st @
                   [literal [(''jsonrpc'', Some (JStr ''2.0'')), (''id'', get_prop msg ''id''),
                      (''error'', Some (JObj [(''code'', JNum (- 32000)),
                                              (''message'', JStr (zod_message issues3))]))]]\<rparr>)"
    by (simp add: prompts_handleRequest_def prompts_try_def prompts_catch_def send_def)
qed

text \<open>
  Witness of C3: \<^verbatim>\<open>add\<close> with a string for \<^verbatim>\<open>a\<close> on the simple server;
  \<^verbatim>\<open>markdown_summary\<close> with an empty \<^verbatim>\<open>content\<close> and \<^verbatim>\<open>qa/basic\<close> without variables on
  the prompts server.
\<close>

theorem validation_failure_witness:
  "schema_parse [(''a'', ZNumber), (''b'', ZNumber)]
       (Some (JObj [(''a'', JStr ''x''), (''b'', JNum 1)]))
     = Inl [invalid_type ''number'' (Some (JStr ''x'')) [''a'']]
   \<and> simple_handleRequest example_platform
        (JObj [(''jsonrpc'', JStr ''2.0''), (''id'', JNum 5), (''method'', JStr ''tool.call''),
               (''params'', JObj [(''name'', JStr ''add''),
                  (''arguments'', JObj [(''a'', JStr ''x''), (''b'', JNum 1)])])])
        simple_start =
       (Fulfilled, simple_start\<lparr>stdout := stdout simple_start @
          [JObj [(''jsonrpc'', JStr ''2.0''), (''id'', JNum 5),
                 (''error'', JObj [(''code'', JNum (- 32602)),
                    (''message'', JStr ''Invalid params''),
                    (''data'', JArr [JObj [(''code'', JStr ''invalid_type''),
                        (''expected'', JStr ''number''), (''received'', JStr ''string''),
                        (''path'', JArr [JStr ''a'']),
                        (''message'', JStr ''Expected number, received string'')]])])]]\<rparr>)
   \<and> schema_parse [(''content'', ZStringMin 1)] (Some (JObj [(''content'', JStr [])]))
     = Inl [too_small 1 [''content'']]
   \<and> prompts_handleRequest example_platform
        (JObj [(''jsonrpc'', JStr ''2.0''), (''id'', JNum 6), (''method'', JStr ''tool.call''),
               (''params'', JObj [(''name'', JStr ''markdown_summary''),
                  (''arguments'', JObj [(''content'', JStr [])])])])
        prompts_start =
       (Fulfilled, prompts_start\<lparr>stdout := stdout prompts_start @
          [JObj [(''jsonrpc'', JStr ''2.0''), (''id'', JNum 6),
                 (''error'', JObj [(''code'', JNum (- 32000)),
                    (''message'', JStr (zod_message [too_small 1 [''content'']]))])]]\<rparr>)
   \<and> schema_parse [(''question'', ZString), (''context'', ZOptional ZString)] (Some (JObj []))
     = Inl [invalid_type ''string'' None [''question'']]
   \<and> prompts_handleRequest example_platform
        (JObj [(''jsonrpc'', JStr ''2.0''), (''id'', JNum 7),
               (''method'', JStr ''prompts.build''),
               (''params'', JObj [(''name'', JStr ''qa/basic'')])])
        prompts_start =
       (Fulfilled, prompts_start\<lparr>stdout := stdout prompts_start @
          [JObj [(''jsonrpc'', JStr ''2.0''), (''id'', JNum 7),
                 (''error'', JObj [(''code'', JNum (- 32000)),
                    (''message'',
                     JStr (zod_message [invalid_type ''string'' None [''question'']]))])]]\<rparr>)"
proof -
  let ?ma = "JObj [(''jsonrpc'', JStr ''2.0''), (''id'', JNum 5), (''method'', JStr ''tool.call''),
               (''params'', JObj [(''name'', JStr ''add''),
                  (''arguments'', JObj [(''a'', JStr ''x''), (''b'', JNum 1)])])]"
  let ?mb = "JObj [(''jsonrpc'', JStr ''2.0''), (''id'', JNum 6), (''method'', JStr ''tool.call''),
               (''params'', JObj [(''name'', JStr ''markdown_summary''),
                  (''arguments'', JObj [(''content'', JStr [])])])]"
  let ?mc = "JObj [(''jsonrpc'', JStr ''2.0''), (''id'', JNum 7),
               (''method'', JStr ''prompts.build''),
               (''params'', JObj [(''name'', JStr ''qa/basic'')])]"
  let ?add = "\<lparr>description = ''Add two numbers'', schema = [(''a'', ZNumber), (''b'', ZNumber)],
            handler = add_handler\<rparr>"
  let ?sum = "\<lparr>description = ''Summarize a block of markdown text (simulated)'',
        schema = [(''content'', ZStringMin 1)], handler = markdown_summary_handler\<rparr>"
  let ?qa = "\<lparr>prompt_description = ''Simple Q&A wrapper'',
        inputSchema = [(''question'', ZString), (''context'', ZOptional ZString)],
        template = ''You are a helpful system. Answer the user question.'' @ [CHR 0x0A] @
                   ''Context: {{context}}'' @ [CHR 0x0A] @
                   ''Question: {{question}}'' @ [CHR 0x0A] @
                   ''Answer:''\<rparr>"
  have a: "schema_parse [(''a'', ZNumber), (''b'', ZNumber)]
       (Some (JObj [(''a'', JStr ''x''), (''b'', JNum 1)]))
     = Inl [invalid_type ''number'' (Some (JStr ''x'')) [''a'']]"
    by (simp add: schema_parse_def check_fields_def)
  have b: "schema_parse [(''content'', ZStringMin 1)] (Some (JObj [(''content'', JStr [])]))
     = Inl [too_small 1 [''content'']]"
    by (simp add: schema_parse_def check_fields_def)
  have c: "schema_parse [(''question'', ZString), (''context'', ZOptional ZString)]
       (Some (JObj []))
     = Inl [invalid_type ''string'' None [''question'']]"
    by (simp add: schema_parse_def check_fields_def)
  have ga: "get_member simple_tools ''add'' = Own ?add"
    by (simp add: get_member_def simple_tools_def)
  have gb: "get_member prompts_tools ''markdown_summary'' = Own ?sum"
    by (simp add: get_member_def prompts_tools_def)
  have gc: "get_member promptTemplates ''qa/basic'' = Own ?qa"
    by (simp add: get_member_def promptTemplates_def)
  have ra: "simple_handleRequest example_platform ?ma simple_start =
       (Fulfilled, simple_start\<lparr>stdout := stdout simple_start @
          [JObj [(''jsonrpc'', JStr ''2.0''), (''id'', JNum 5),
                 (''error'', JObj [(''code'', JNum (- 32602)),
                    (''message'', JStr ''Invalid params''),
                    (''data'', JArr [JObj [(''code'', JStr ''invalid_type''),
                        (''expected'', JStr ''number''), (''received'', JStr ''string''),
                        (''path'', JArr [JStr ''a'']),
                        (''message'', JStr ''Expected number, received string'')]])])]]\<rparr>)"
    using validation_failure [where msg = ?ma and key = "''add''" and t = ?add
        and ps = "[(''name'', JStr ''add''),
                   (''arguments'', JObj [(''a'', JStr ''x''), (''b'', JNum 1)])]"
        and issues = "[invalid_type ''number'' (Some (JStr ''x'')) [''a'']]"
        and P = example_platform and st = simple_start]
      a ga
    by (simp add: literal_def invalid_type_def)
  have rb: "prompts_handleRequest example_platform ?mb prompts_start =
       (Fulfilled, prompts_start\<lparr>stdout := stdout prompts_start @
          [JObj [(''jsonrpc'', JStr ''2.0''), (''id'', JNum 6),
                 (''error'', JObj [(''code'', JNum (- 32000)),
                    (''message'', JStr (zod_message [too_small 1 [''content'']]))])]]\<rparr>)"
    using validation_failure [where msg = ?mb and key = "''markdown_summary''" and u = ?sum
        and ps = "[(''name'', JStr ''markdown_summary''),
                   (''arguments'', JObj [(''content'', JStr [])])]"
        and ?issues2.0 = "[too_small 1 [''content'']]"
        and P = example_platform and st = prompts_start]
      b gb
    by (simp add: literal_def)
  have rc: "prompts_handleRequest example_platform ?mc prompts_start =
       (Fulfilled, prompts_start\<lparr>stdout := stdout prompts_start @
          [JObj [(''jsonrpc'', JStr ''2.0''), (''id'', JNum 7),
                 (''error'', JObj [(''code'', JNum (- 32000)),
                    (''message'',
                     JStr (zod_message [invalid_type ''string'' None [''question'']]))])]]\<rparr>)"
    using validation_failure [where msg = ?mc and key = "''qa/basic''" and p = ?qa
        and ps = "[(''name'', JStr ''qa/basic'')]"
        and ?issues3.0 = "[invalid_type ''string'' None [''question'']]"
        and P = example_platform and st = prompts_start]
      c gc
    by (simp add: literal_def)
  from a b c ra rb rc show ?thesis by blast
qed

text \<open>
  Counterexample to C3 as stated. The prompts server answers a \<^verbatim>\<open>tool.call\<close> of
  \<^verbatim>\<open>markdown_summary\<close> whose arguments lack \<^verbatim>\<open>content\<close>, which fails the schema, with
  code -32000 and without \<^verbatim>\<open>data\<close>.
\<close>

theorem validation_failure_counterexample:
  "schema_parse [(''content'', ZStringMin 1)] (Some (JObj [])) =
      Inl [invalid_type ''string'' None [''content'']]
   \<and> prompts_handleRequest example_platform
        (JObj [(''jsonrpc'', JStr ''2.0''), (''id'', JNum 4), (''method'', JStr ''tool.call''),
               (''params'', JObj [(''name'', JStr ''markdown_summary''),
                                  (''arguments'', JObj [])])])
        prompts_start =
       (Fulfilled, prompts_start\<lparr>stdout := stdout prompts_start @
          [JObj [(''jsonrpc'', JStr ''2.0''), (''id'', JNum 4),
                 (''error'', JObj [(''code'', JNum (- 32000)),
                    (''message'',
                     JStr (zod_message [invalid_type ''string'' None [''content'']]))])]]\<rparr>)
   \<and> get_prop (JObj [(''code'', JNum (- 32000)),
                    (''message'',
                     JStr (zod_message [invalid_type ''string'' None [''content'']]))])
         ''code'' \<noteq> Some (JNum (- 32602))
   \<and> \<not> has_key (JObj [(''code'', JNum (- 32000)),
                    (''message'',
                     JStr (zod_message [invalid_type ''string'' None [''content'']]))])
          ''data''"
  by (simp add: prompts_handleRequest_def prompts_try_def tool_call_def get_member_def
      prompts_tools_def schema_parse_def check_fields_def prompts_catch_def literal_def send_def
      has_key_def)

section \<open>Unknown methods\<close>

text \<open>
  C4. A message other than \<^verbatim>\<open>null\<close> whose method is none of the methods the server
  dispatches on (\<^verbatim>\<open>capability.list\<close> and \<^verbatim>\<open>tool.call\<close>; in the prompts server also
  \<^verbatim>\<open>prompts.list\<close> and \<^verbatim>\<open>prompts.build\<close>) is answered by one line: an envelope with the
  id of the message, without \<^verbatim>\<open>result\<close>, whose error has code -32000 and the message
  \<^verbatim>\<open>Method not found\<close>.
\<close>

theorem unknown_method:
  assumes "msg \<noteq> JNull"
  shows "(get_prop msg ''method'' \<noteq> Some (JStr ''capability.list'')
          \<and> get_prop msg ''method'' \<noteq> Some (JStr ''tool.call'')
          \<longrightarrow> (\<exists>env. simple_handleRequest P msg st =
                        (Fulfilled, st\<lparr>stdout := stdout st @ [env]\<rparr>)
                 \<and> get_prop env ''id'' = get_prop msg ''id''
                 \<and> \<not> has_key env ''result''
                 \<and> get_prop env ''error'' =
                     Some (JObj [(''code'', JNum (- 32000)),
                                 (''message'', JStr ''Method not found'')])))
       \<and> (get_prop msg ''method'' \<noteq> Some (JStr ''capability.list'')
          \<and> get_prop msg ''method'' \<noteq> Some (JStr ''tool.call'')
          \<and> get_prop msg ''method'' \<noteq> Some (JStr ''prompts.list'')
          \<and> get_prop msg ''method'' \<noteq> Some (JStr ''prompts.build'')
          \<longrightarrow> (\<exists>env. prompts_handleRequest P msg st =
                        (Fulfilled, st\<lparr>stdout := stdout st @ [env]\<rparr>)
                 \<and> get_prop env ''id'' = get_prop msg ''id''
                 \<and> \<not> has_key env ''result''
                 \<and> get_prop env ''error'' =
                     Some (JObj [(''code'', JNum (- 32000)),
                                 (''message'', JStr ''Method not found'')])))"
proof (intro conjI impI)
  let ?env = "literal [(''jsonrpc'', Some (JStr ''2.0'')), (''id'', get_prop msg ''id''),
                (''error'', Some (JObj [(''code'', JNum (- 32000)),
                                        (''message'', JStr ''Method not found'')]))]"
  have env: "get_prop ?env ''id'' = get_prop msg ''id'' \<and> \<not> has_key ?env ''result''
      \<and> get_prop ?env ''error'' =
            Some (JObj [(''code'', JNum (- 32000)), (''message'', JStr ''Method not found'')])"
    by (simp add: has_key_def error_envelope)
  {
    assume "get_prop msg ''method'' \<noteq> Some (JStr ''capability.list'')
          \<and> get_prop msg ''method'' \<noteq> Some (JStr ''tool.call'')"
    with assms have "simple_handleRequest P msg st =
        (Fulfilled, st\<lparr>stdout := stdout st @ [?env]\<rparr>)"
      by (simp add: simple_handleRequest_def simple_try_def simple_catch_def send_def)
    with env show "\<exists>env. simple_handleRequest P msg st =
                        (Fulfilled, st\<lparr>stdout := stdout st @ [env]\<rparr>)
                 \<and> get_prop env ''id'' = get_prop msg ''id''
                 \<and> \<not> has_key env ''result''
                 \<and> get_prop env ''error'' =
                     Some (JObj [(''code'', JNum (- 32000)),
                                 (''message'', JStr ''Method not found'')])"
      by blast
  }
  {
    assume "get_prop msg ''method'' \<noteq> Some (JStr ''capability.list'')
          \<and> get_prop msg ''method'' \<noteq> Some (JStr ''tool.call'')
          \<and> get_prop msg ''method'' \<noteq> Some (JStr ''prompts.list'')
          \<and> get_prop msg ''method'' \<noteq> Some (JStr ''prompts.build'')"
    with assms have "prompts_handleRequest P msg st =
        (Fulfilled, st\<lparr>stdout := stdout st @ [?env]\<rparr>)"
      by (simp add: prompts_handleRequest_def prompts_try_def prompts_catch_def send_def)
    with env show "\<exists>env. prompts_handleRequest P msg st =
                        (Fulfilled, st\<lparr>stdout := stdout st @ [env]\<rparr>)
                 \<and> get_prop env ''id'' = get_prop msg ''id''
                 \<and> \<not> has_key env ''result''
                 \<and> get_prop env ''error'' =
                     Some (JObj [(''code'', JNum (- 32000)),
                                 (''message'', JStr ''Method not found'')])"
      by blast
  }
qed

text \<open>Witness of C4: the method \<^verbatim>\<open>resources.read\<close>, with id 7, on both servers.\<close>

theorem unknown_method_witness:
  "JObj [(''jsonrpc'', JStr ''2.0''), (''id'', JNum 7), (''method'', JStr ''resources.read'')]
     \<noteq> JNull
   \<and> (\<exists>env. simple_handleRequest example_platform
        (JObj [(''jsonrpc'', JStr ''2.0''), (''id'', JNum 7),
               (''method'', JStr ''resources.read'')]) simple_start =
          (Fulfilled, simple_start\<lparr>stdout := stdout simple_start @ [env]\<rparr>)
        \<and> get_prop env ''id'' = Some (JNum 7)
        \<and> \<not> has_key env ''result''
        \<and> get_prop env ''error'' =
            Some (JObj [(''code'', JNum (- 32000)), (''message'', JStr ''Method not found'')]))
   \<and> (\<exists>env. prompts_handleRequest example_platform
        (JObj [(''jsonrpc'', JStr ''2.0''), (''id'', JNum 7),
               (''method'', JStr ''resources.read'')]) prompts_start =
          (Fulfilled, prompts_start\<lparr>stdout := stdout prompts_start @ [env]\<rparr>)
        \<and> get_prop env ''id'' = Some (JNum 7)
        \<and> \<not> has_key env ''result''
        \<and> get_prop env ''error'' =
            Some (JObj [(''code'', JNum (- 32000)), (''message'', JStr ''Method not found'')]))"
proof -
  let ?m = "JObj [(''jsonrpc'', JStr ''2.0''), (''id'', JNum 7),
                  (''method'', JStr ''resources.read'')]"
  have n: "?m \<noteq> JNull" by simp
  from unknown_method [OF n, of example_platform simple_start]
    unknown_method [OF n, of example_platform prompts_start] n
  show ?thesis by simp
qed

section \<open>A line that parses to null\<close>

text \<open>
  C5, the failing input. \<^verbatim>\<open>handleRequest\<close> on \<^verbatim>\<open>null\<close> rejects without writing, in both
  servers; so the input line \<^verbatim>\<open>null\<close>, which is JSON, leaves the output as it was and
  an unhandled rejection behind.
\<close>

theorem null_line_no_envelope:
  "simple_handleRequest P JNull st = (Rejected (TypeError DestructureNull), st)
   \<and> prompts_handleRequest P JNull st = (Rejected (TypeError DestructureNull), st)
   \<and> json_parse example_platform ''null'' = Some JNull
   \<and> simple_on_line example_platform simple_start ''null'' =
       simple_start\<lparr>unhandled := [TypeError DestructureNull]\<rparr>
   \<and> stdout (simple_on_line example_platform simple_start ''null'') = stdout simple_start
   \<and> prompts_on_line example_platform prompts_start ''null'' =
       prompts_start\<lparr>unhandled := [TypeError DestructureNull]\<rparr>
   \<and> stdout (prompts_on_line example_platform prompts_start ''null'') = stdout prompts_start"
  by (simp add: simple_handleRequest_def prompts_handleRequest_def example_platform_def
      example_parse_def simple_on_line_def prompts_on_line_def trim_def is_space_def
      simple_start_def prompts_start_def send_def)

section \<open>Building a prompt\<close>

text \<open>
  C6. \<^verbatim>\<open>prompts.build\<close> of \<^verbatim>\<open>qa/basic\<close> with the question \<^verbatim>\<open>What is MCP?\<close> and the
  context \<^verbatim>\<open>Protocol for tools\<close> is answered by the template's text with the context
  after \<^verbatim>\<open>Context: \<close> and the question after \<^verbatim>\<open>Question: \<close>; each of the two values
  occurs in the text once.
\<close>

theorem qa_basic_rendered:
  "prompts_handleRequest P
     (JObj [(''jsonrpc'', JStr ''2.0''), (''id'', rid), (''method'', JStr ''prompts.build''),
            (''params'', JObj [(''name'', JStr ''qa/basic''),
               (''variables'', JObj [(''question'', JStr ''What is MCP?''),
                                     (''context'', JStr ''Protocol for tools'')])])]) st =
     (Fulfilled, st\<lparr>stdout := stdout st @
        [JObj [(''jsonrpc'', JStr ''2.0''), (''id'', rid),
               (''result'', JObj [(''prompt'',
                  JStr (''You are a helpful system. Answer the user question.'' @ [CHR 0x0A] @
                        ''Context: '' @ ''Protocol for tools'' @ [CHR 0x0A] @
                        ''Question: '' @ ''What is MCP?'' @ [CHR 0x0A] @
                        ''Answer:''))])]]\<rparr>)
   \<and> occurrences ''Protocol for tools''
         (''You are a helpful system. Answer the user question.'' @ [CHR 0x0A] @
          ''Context: '' @ ''Protocol for tools'' @ [CHR 0x0A] @
          ''Question: '' @ ''What is MCP?'' @ [CHR 0x0A] @ ''Answer:'') = 1
   \<and> occurrences ''What is MCP?''
         (''You are a helpful system. Answer the user question.'' @ [CHR 0x0A] @
          ''Context: '' @ ''Protocol for tools'' @ [CHR 0x0A] @
          ''Question: '' @ ''What is MCP?'' @ [CHR 0x0A] @ ''Answer:'') = 1"
proof -
  have parsed: "schema_parse [(''question'', ZString), (''context'', ZOptional ZString)]
      (Some (JObj [(''question'', JStr ''What is MCP?''),
                   (''context'', JStr ''Protocol for tools'')]))
      = Inr (JObj [(''question'', JStr ''What is MCP?''),
                   (''context'', JStr ''Protocol for tools'')])"
    by (simp add: schema_parse_def check_fields_def literal_def)
  have rendered: "mustache_render
      (''You are a helpful system. Answer the user question.'' @ [CHR 0x0A] @
       ''Context: {{context}}'' @ [CHR 0x0A] @ ''Question: {{question}}'' @ [CHR 0x0A] @
       ''Answer:'')
      (JObj [(''question'', JStr ''What is MCP?''), (''context'', JStr ''Protocol for tools'')])
      = Inr (''You are a helpful system. Answer the user question.'' @ [CHR 0x0A] @
             ''Context: '' @ ''Protocol for tools'' @ [CHR 0x0A] @
             ''Question: '' @ ''What is MCP?'' @ [CHR 0x0A] @ ''Answer:'')"
    by (simp add: mustache_render_def open_tag_def close_tag_def is_space_def escapeHtml_def
        escape_char_def)
  have build: "prompts_build (Some (JObj [(''name'', JStr ''qa/basic''),
               (''variables'', JObj [(''question'', JStr ''What is MCP?''),
                                     (''context'', JStr ''Protocol for tools'')])]))
      = Inr (''You are a helpful system. Answer the user question.'' @ [CHR 0x0A] @
             ''Context: '' @ ''Protocol for tools'' @ [CHR 0x0A] @
             ''Question: '' @ ''What is MCP?'' @ [CHR 0x0A] @ ''Answer:'')"
    using parsed rendered
    by (simp add: prompts_build_def get_member_def promptTemplates_def)
  have handled: "prompts_handleRequest P
     (JObj [(''jsonrpc'', JStr ''2.0''), (''id'', rid), (''method'', JStr ''prompts.build''),
            (''params'', JObj [(''name'', JStr ''qa/basic''),
               (''variables'', JObj [(''question'', JStr ''What is MCP?''),
                                     (''context'', JStr ''Protocol for tools'')])])]) st =
     (Fulfilled, st\<lparr>stdout := stdout st @
        [JObj [(''jsonrpc'', JStr ''2.0''), (''id'', rid),
               (''result'', JObj [(''prompt'',
                  JStr (''You are a helpful system. Answer the user question.'' @ [CHR 0x0A] @
                        ''Context: '' @ ''Protocol for tools'' @ [CHR 0x0A] @
                        ''Question: '' @ ''What is MCP?'' @ [CHR 0x0A] @
                        ''Answer:''))])]]\<rparr>)"
    using build
    by (simp add: prompts_handleRequest_def prompts_try_def literal_def send_def)
  have o1: "occurrences ''Protocol for tools''
         (''You are a helpful system. Answer the user question.'' @ [CHR 0x0A] @
          ''Context: '' @ ''Protocol for tools'' @ [CHR 0x0A] @
          ''Question: '' @ ''What is MCP?'' @ [CHR 0x0A] @ ''Answer:'') = 1"
    by simp
  have o2: "occurrences ''What is MCP?''
         (''You are a helpful system. Answer the user question.'' @ [CHR 0x0A] @
          ''Context: '' @ ''Protocol for tools'' @ [CHR 0x0A] @
          ''Question: '' @ ''What is MCP?'' @ [CHR 0x0A] @ ''Answer:'') = 1"
    by simp
  from handled o1 o2 show ?thesis by blast
qed

section \<open>Listing the capabilities\<close>

text \<open>
  C7. Two \<^verbatim>\<open>capability.list\<close> requests to the same server, in whatever states it is, are
  each answered by one envelope, and the two results are the same: the registry, which
  no request changes.
\<close>

theorem capability_list_idempotent:
  assumes "get_prop m1 ''method'' = Some (JStr ''capability.list'')"
    and "get_prop m2 ''method'' = Some (JStr ''capability.list'')"
  shows "(\<exists>e1 e2. simple_handleRequest P m1 st1 =
                    (Fulfilled, st1\<lparr>stdout := stdout st1 @ [e1]\<rparr>)
            \<and> simple_handleRequest P m2 st2 =
                    (Fulfilled, st2\<lparr>stdout := stdout st2 @ [e2]\<rparr>)
            \<and> get_prop e1 ''result'' = Some (JObj [(''tools'', simple_listCapabilities)])
            \<and> get_prop e2 ''result'' = get_prop e1 ''result'')
       \<and> (\<exists>e1 e2. prompts_handleRequest P m1 st1 =
                    (Fulfilled, st1\<lparr>stdout := stdout st1 @ [e1]\<rparr>)
            \<and> prompts_handleRequest P m2 st2 =
                    (Fulfilled, st2\<lparr>stdout := stdout st2 @ [e2]\<rparr>)
            \<and> get_prop e1 ''result'' = Some prompts_listCapabilities
            \<and> get_prop e2 ''result'' = get_prop e1 ''result'')"
proof
  from assms have n1: "m1 \<noteq> JNull" and n2: "m2 \<noteq> JNull" by auto
  have s1: "simple_handleRequest P m1 st1 = (Fulfilled, st1\<lparr>stdout := stdout st1 @
      [literal [(''jsonrpc'', Some (JStr ''2.0'')), (''id'', get_prop m1 ''id''),
                (''result'', Some (JObj [(''tools'', simple_listCapabilities)]))]]\<rparr>)"
    using n1 assms(1) by (simp add: simple_handleRequest_def simple_try_def send_def)
  have s2: "simple_handleRequest P m2 st2 = (Fulfilled, st2\<lparr>stdout := stdout st2 @
      [literal [(''jsonrpc'', Some (JStr ''2.0'')), (''id'', get_prop m2 ''id''),
                (''result'', Some (JObj [(''tools'', simple_listCapabilities)]))]]\<rparr>)"
    using n2 assms(2) by (simp add: simple_handleRequest_def simple_try_def send_def)
  from s1 s2
  show "\<exists>e1 e2. simple_handleRequest P m1 st1 =
                    (Fulfilled, st1\<lparr>stdout := stdout st1 @ [e1]\<rparr>)
            \<and> simple_handleRequest P m2 st2 =
                    (Fulfilled, st2\<lparr>stdout := stdout st2 @ [e2]\<rparr>)
            \<and> get_prop e1 ''result'' = Some (JObj [(''tools'', simple_listCapabilities)])
            \<and> get_prop e2 ''result'' = get_prop e1 ''result''"
    by (metis result_envelope(2))
  from assms have n1: "m1 \<noteq> JNull" and n2: "m2 \<noteq> JNull" by auto
  have p1: "prompts_handleRequest P m1 st1 = (Fulfilled, st1\<lparr>stdout := stdout st1 @
      [literal [(''jsonrpc'', Some (JStr ''2.0'')), (''id'', get_prop m1 ''id''),
                (''result'', Some prompts_listCapabilities)]]\<rparr>)"
    using n1 assms(1) by (simp add: prompts_handleRequest_def prompts_try_def send_def)
  have p2: "prompts_handleRequest P m2 st2 = (Fulfilled, st2\<lparr>stdout := stdout st2 @
      [literal [(''jsonrpc'', Some (JStr ''2.0'')), (''id'', get_prop m2 ''id''),
                (''result'', Some prompts_listCapabilities)]]\<rparr>)"
    using n2 assms(2) by (simp add: prompts_handleRequest_def prompts_try_def send_def)
  from p1 p2
  show "\<exists>e1 e2. prompts_handleRequest P m1 st1 =
                    (Fulfilled, st1\<lparr>stdout := stdout st1 @ [e1]\<rparr>)
            \<and> prompts_handleRequest P m2 st2 =
                    (Fulfilled, st2\<lparr>stdout := stdout st2 @ [e2]\<rparr>)
            \<and> get_prop e1 ''result'' = Some prompts_listCapabilities
            \<and> get_prop e2 ''result'' = get_prop e1 ''result''"
    by (metis result_envelope(2))
qed

text \<open>
  Witness of C7: the request with id 1 at the start, and the request with id 2 after
  the first one has been answered.
\<close>

theorem capability_list_witness:
  "get_prop (JObj [(''id'', JNum 1), (''method'', JStr ''capability.list'')]) ''method''
       = Some (JStr ''capability.list'')
   \<and> get_prop (JObj [(''id'', JNum 2), (''method'', JStr ''capability.list'')]) ''method''
       = Some (JStr ''capability.list'')
   \<and> stdout (snd (simple_handleRequest example_platform
          (JObj [(''id'', JNum 1), (''method'', JStr ''capability.list'')]) simple_start)) =
       stdout simple_start @
         [JObj [(''jsonrpc'', JStr ''2.0''), (''id'', JNum 1),
                (''result'', JObj [(''tools'', simple_listCapabilities)])]]
   \<and> stdout (snd (simple_handleRequest example_platform
          (JObj [(''id'', JNum 2), (''method'', JStr ''capability.list'')])
          (snd (simple_handleRequest example_platform
             (JObj [(''id'', JNum 1), (''method'', JStr ''capability.list'')]) simple_start)))) =
       stdout simple_start @
         [JObj [(''jsonrpc'', JStr ''2.0''), (''id'', JNum 1),
                (''result'', JObj [(''tools'', simple_listCapabilities)])],
          JObj [(''jsonrpc'', JStr ''2.0''), (''id'', JNum 2),
                (''result'', JObj [(''tools'', simple_listCapabilities)])]]
   \<and> stdout (snd (prompts_handleRequest example_platform
          (JObj [(''id'', JNum 2), (''method'', JStr ''capability.list'')])
          (snd (prompts_handleRequest example_platform
             (JObj [(''id'', JNum 1), (''method'', JStr ''capability.list'')]) prompts_start)))) =
       stdout prompts_start @
         [JObj [(''jsonrpc'', JStr ''2.0''), (''id'', JNum 1),
                (''result'', prompts_listCapabilities)],
          JObj [(''jsonrpc'', JStr ''2.0''), (''id'', JNum 2),
                (''result'', prompts_listCapabilities)]]"
proof -
  let ?m1 = "JObj [(''id'', JNum 1), (''method'', JStr ''capability.list'')]"
  let ?m2 = "JObj [(''id'', JNum 2), (''method'', JStr ''capability.list'')]"
  have c1: "get_prop ?m1 ''method'' = Some (JStr ''capability.list'')"
    and c2: "get_prop ?m2 ''method'' = Some (JStr ''capability.list'')" by simp_all
  note w = capability_list_idempotent [OF c1 c2, of example_platform simple_start
      "snd (simple_handleRequest example_platform ?m1 simple_start)"]
  have s: "stdout (snd (simple_handleRequest example_platform ?m2
          (snd (simple_handleRequest example_platform ?m1 simple_start)))) =
       stdout simple_start @
         [JObj [(''jsonrpc'', JStr ''2.0''), (''id'', JNum 1),
                (''result'', JObj [(''tools'', simple_listCapabilities)])],
          JObj [(''jsonrpc'', JStr ''2.0''), (''id'', JNum 2),
                (''result'', JObj [(''tools'', simple_listCapabilities)])]]"
    using w by (simp add: simple_handleRequest_def simple_try_def send_def literal_def)
  have s1: "stdout (snd (simple_handleRequest example_platform ?m1 simple_start)) =
       stdout simple_start @
         [JObj [(''jsonrpc'', JStr ''2.0''), (''id'', JNum 1),
                (''result'', JObj [(''tools'', simple_listCapabilities)])]]"
    by (simp add: simple_handleRequest_def simple_try_def send_def literal_def)
  have p: "stdout (snd (prompts_handleRequest example_platform ?m2
          (snd (prompts_handleRequest example_platform ?m1 prompts_start)))) =
       stdout prompts_start @
         [JObj [(''jsonrpc'', JStr ''2.0''), (''id'', JNum 1),
                (''result'', prompts_listCapabilities)],
          JObj [(''jsonrpc'', JStr ''2.0''), (''id'', JNum 2),
                (''result'', prompts_listCapabilities)]]"
    by (simp add: prompts_handleRequest_def prompts_try_def send_def literal_def)
  from c1 c2 s1 s p show ?thesis by blast
qed

section \<open>One of result and error\<close>

text \<open>
  What one line of input does to the output: nothing, or one envelope with exactly one
  of \<^verbatim>\<open>result\<close> and \<^verbatim>\<open>error\<close>.
\<close>

lemma simple_on_line_cases:
  "stdout (simple_on_line P st line) = stdout st
   \<or> (\<exists>env. stdout (simple_on_line P st line) = stdout st @ [env]
        \<and> has_key env ''result'' \<noteq> has_key env ''error'')"
proof (cases "trim line = []")
  case True
  then show ?thesis by (simp add: simple_on_line_def)
next
  case False
  show ?thesis
  proof (cases "json_parse P line")
    case None
    with False have "stdout (simple_on_line P st line) = stdout st @
          [JObj [(''jsonrpc'', JStr ''2.0''), (''id'', JNum (nextId st)),
                 (''error'', JObj [(''code'', JNum (- 32700)),
                                   (''message'', JStr ''Parse error'')])]]"
      by (simp add: simple_on_line_def send_def)
    then show ?thesis by (simp add: has_key_def)
  next
    case (Some msg)
    show ?thesis
    proof (cases "msg = JNull")
      case True
      with False Some show ?thesis
        by (simp add: simple_on_line_def simple_handleRequest_def)
    next
      case n: False
      from simple_handleRequest_one [OF n, of P st] False Some show ?thesis
        by (auto simp: simple_on_line_def)
    qed
  qed
qed

lemma prompts_on_line_cases:
  "stdout (prompts_on_line P st line) = stdout st
   \<or> (\<exists>env. stdout (prompts_on_line P st line) = stdout st @ [env]
        \<and> has_key env ''result'' \<noteq> has_key env ''error'')"
proof (cases "trim line = []")
  case True
  then show ?thesis by (simp add: prompts_on_line_def)
next
  case False
  show ?thesis
  proof (cases "json_parse P line")
    case None
    with False have "stdout (prompts_on_line P st line) = stdout st @
          [JObj [(''jsonrpc'', JStr ''2.0''), (''id'', JNull),
                 (''error'', JObj [(''code'', JNum (- 32700)),
                                   (''message'', JStr ''Parse error'')])]]"
      by (simp add: prompts_on_line_def send_def)
    then show ?thesis by (simp add: has_key_def)
  next
    case (Some msg)
    show ?thesis
    proof (cases "msg = JNull")
      case True
      with False Some show ?thesis
        by (simp add: prompts_on_line_def prompts_handleRequest_def)
    next
      case n: False
      from prompts_handleRequest_one [OF n, of P st] False Some show ?thesis
        by (auto simp: prompts_on_line_def)
    qed
  qed
qed

text \<open>
  C8. Every envelope that a server writes for a line of input, whatever the line and
  the state, has exactly one of the keys \<^verbatim>\<open>result\<close> and \<^verbatim>\<open>error\<close>.
\<close>

theorem result_xor_error:
  "(\<forall>env \<in> set (drop (length (stdout st)) (stdout (simple_on_line P st line))).
       has_key env ''result'' \<noteq> has_key env ''error'')
   \<and> (\<forall>env \<in> set (drop (length (stdout st')) (stdout (prompts_on_line P st' line))).
       has_key env ''result'' \<noteq> has_key env ''error'')"
proof
  from simple_on_line_cases [of P st line]
  show "\<forall>env \<in> set (drop (length (stdout st)) (stdout (simple_on_line P st line))).
       has_key env ''result'' \<noteq> has_key env ''error''"
    by auto
  from prompts_on_line_cases [of P st' line]
  show "\<forall>env \<in> set (drop (length (stdout st')) (stdout (prompts_on_line P st' line))).
       has_key env ''result'' \<noteq> has_key env ''error''"
    by auto
qed

lemma trim_capability_line:
  \<open>trim ''{"jsonrpc":"2.0","id":1,"method":"capability.list"}'' \<noteq> []\<close>
  by (simp add: trim_def is_space_def)

text \<open>
  Witness of C8: the line of a \<^verbatim>\<open>capability.list\<close> request, answered with a result and
  no error by both servers.
\<close>

theorem result_xor_error_witness:
  \<open>drop (length (stdout simple_start))
      (stdout (simple_on_line example_platform simple_start
         ''{"jsonrpc":"2.0","id":1,"method":"capability.list"}'')) =
     [JObj [(''jsonrpc'', JStr ''2.0''), (''id'', JNum 1),
            (''result'', JObj [(''tools'', simple_listCapabilities)])]]
   \<and> has_key (JObj [(''jsonrpc'', JStr ''2.0''), (''id'', JNum 1),
                     (''result'', JObj [(''tools'', simple_listCapabilities)])]) ''result''
   \<and> \<not> has_key (JObj [(''jsonrpc'', JStr ''2.0''), (''id'', JNum 1),
                     (''result'', JObj [(''tools'', simple_listCapabilities)])]) ''error''
   \<and> drop (length (stdout prompts_start))
      (stdout (prompts_on_line example_platform prompts_start
         ''{"jsonrpc":"2.0","id":1,"method":"capability.list"}'')) =
     [JObj [(''jsonrpc'', JStr ''2.0''), (''id'', JNum 1),
            (''result'', prompts_listCapabilities)]]
   \<and> has_key (JObj [(''jsonrpc'', JStr ''2.0''), (''id'', JNum 1),
                     (''result'', prompts_listCapabilities)]) ''result''
   \<and> \<not> has_key (JObj [(''jsonrpc'', JStr ''2.0''), (''id'', JNum 1),
                     (''result'', prompts_listCapabilities)]) ''error''\<close>
proof -
  have p: \<open>json_parse example_platform ''{"jsonrpc":"2.0","id":1,"method":"capability.list"}''
      = Some (JObj [(''jsonrpc'', JStr ''2.0''), (''id'', JNum 1),
                    (''method'', JStr ''capability.list'')])\<close>
    by (simp add: example_platform_def example_parse_def)
  have s: \<open>stdout (simple_on_line example_platform simple_start
         ''{"jsonrpc":"2.0","id":1,"method":"capability.list"}'') =
      stdout simple_start @
        [JObj [(''jsonrpc'', JStr ''2.0''), (''id'', JNum 1),
               (''result'', JObj [(''tools'', simple_listCapabilities)])]]\<close>
    using trim_capability_line p
    by (simp add: simple_on_line_def simple_handleRequest_def simple_try_def literal_def
        send_def)
  have q: \<open>stdout (prompts_on_line example_platform prompts_start
         ''{"jsonrpc":"2.0","id":1,"method":"capability.list"}'') =
      stdout prompts_start @
        [JObj [(''jsonrpc'', JStr ''2.0''), (''id'', JNum 1),
               (''result'', prompts_listCapabilities)]]\<close>
    using trim_capability_line p
    by (simp add: prompts_on_line_def prompts_handleRequest_def prompts_try_def literal_def
        send_def)
  from result_xor_error [of simple_start example_platform
      \<open>''{"jsonrpc":"2.0","id":1,"method":"capability.list"}''\<close> prompts_start] s q
  show ?thesis by (simp add: has_key_def)
qed

section \<open>Blank lines\<close>

text \<open>
  C9. A line that is empty or holds only whitespace changes nothing: neither server
  writes a line for it, and the lines that follow are handled from the same state.
\<close>

theorem blank_line_ignored:
  assumes "\<forall>c \<in> set line. is_space c"
  shows "simple_on_line P st line = st \<and> prompts_on_line P st' line = st'
       \<and> simple_serve P st (line # rest) = simple_serve P st rest
       \<and> prompts_serve P st' (line # rest') = prompts_serve P st' rest'"
proof -
  from assms have "trim line = []" by (simp add: trim_empty_iff)
  then show ?thesis
    by (simp add: simple_on_line_def prompts_on_line_def simple_serve_def prompts_serve_def)
qed

text \<open>Witness of C9: the empty line, and the line of a space and a tab.\<close>

theorem blank_line_witness:
  "is_space CHR '' '' \<and> is_space (CHR 0x09)
   \<and> simple_on_line example_platform simple_start [] = simple_start
   \<and> prompts_on_line example_platform prompts_start [] = prompts_start
   \<and> simple_on_line example_platform simple_start [CHR '' '', CHR 0x09] = simple_start
   \<and> prompts_on_line example_platform prompts_start [CHR '' '', CHR 0x09] = prompts_start
   \<and> simple_serve example_platform simple_start [[CHR '' '', CHR 0x09], ''{''] =
       simple_serve example_platform simple_start [''{'']
   \<and> prompts_serve example_platform prompts_start [[CHR '' '', CHR 0x09], ''{''] =
       prompts_serve example_platform prompts_start [''{'']"
proof -
  have a: "is_space CHR '' ''" and b: "is_space (CHR 0x09)" by (simp_all add: is_space_def)
  then have h: "\<forall>c \<in> set [CHR '' '', CHR 0x09]. is_space c" by simp
  have e: "\<forall>c \<in> set []. is_space c" by simp
  from blank_line_ignored [OF h, of example_platform simple_start prompts_start "[''{'']"
      "[''{'']"]
    blank_line_ignored [OF e, of example_platform simple_start prompts_start "[]" "[]"] a b
  show ?thesis by simp
qed

section \<open>The echo tool\<close>

text \<open>
  C10. A \<^verbatim>\<open>tool.call\<close> of \<^verbatim>\<open>echo\<close> whose argument \<^verbatim>\<open>message\<close> is a string is answered by
  the result whose \<^verbatim>\<open>echoed\<close> is that string and whose \<^verbatim>\<open>length\<close> is its length, the
  number of its code units.
\<close>

theorem echo_result:
  assumes "get_prop message ''method'' = Some (JStr ''tool.call'')"
    and "get_prop message ''params'' = Some (JObj ps)"
    and "map_of ps ''name'' = Some (JStr ''echo'')"
    and "map_of ps ''arguments'' = Some (JObj as)"
    and "map_of as ''message'' = Some (JStr m)"
  shows "simple_handleRequest P message st =
           (Fulfilled, st\<lparr>stdout := stdout st @
              [literal [(''jsonrpc'', Some (JStr ''2.0'')), (''id'', get_prop message ''id''),
                        (''result'', Some (JObj [(''echoed'', JStr m),
                                                 (''length'', JNum (int (length m)))]))]]\<rparr>)"
proof -
  have "tool_call simple_tools (Some (JObj ps)) =
      Inr (JObj [(''echoed'', JStr m), (''length'', JNum (int (length m)))])"
    using assms(3-5)
    by (simp add: tool_call_def get_member_def simple_tools_def schema_parse_def
        check_fields_def literal_def echo_handler_def)
  moreover from assms(1) have "message \<noteq> JNull" by auto
  ultimately show ?thesis using assms(1,2)
    by (simp add: simple_handleRequest_def simple_try_def send_def)
qed

text \<open>Witness of C10: the message \<^verbatim>\<open>hello\<close>, of length 5.\<close>

theorem echo_witness:
  "simple_handleRequest example_platform
     (JObj [(''jsonrpc'', JStr ''2.0''), (''id'', JNum 3), (''method'', JStr ''tool.call''),
            (''params'', JObj [(''name'', JStr ''echo''),
                               (''arguments'', JObj [(''message'', JStr ''hello'')])])])
     simple_start =
     (Fulfilled, simple_start\<lparr>stdout := stdout simple_start @
        [JObj [(''jsonrpc'', JStr ''2.0''), (''id'', JNum 3),
               (''result'', JObj [(''echoed'', JStr ''hello''), (''length'', JNum 5)])]]\<rparr>)"
proof -
  let ?m = "JObj [(''jsonrpc'', JStr ''2.0''), (''id'', JNum 3), (''method'', JStr ''tool.call''),
            (''params'', JObj [(''name'', JStr ''echo''),
                               (''arguments'', JObj [(''message'', JStr ''hello'')])])]"
  have h2: "get_prop ?m ''method'' = Some (JStr ''tool.call'')" by simp
  have h3: "get_prop ?m ''params'' =
      Some (JObj [(''name'', JStr ''echo''),
                  (''arguments'', JObj [(''message'', JStr ''hello'')])])" by simp
  have h4: "map_of [(''name'', JStr ''echo''),
                    (''arguments'', JObj [(''message'', JStr ''hello'')])] ''name''
      = Some (JStr ''echo'')" by simp
  have h5: "map_of [(''name'', JStr ''echo''),
                    (''arguments'', JObj [(''message'', JStr ''hello'')])] ''arguments''
      = Some (JObj [(''message'', JStr ''hello'')])" by simp
  have h6: "map_of [(''message'', JStr ''hello'')] ''message'' = Some (JStr ''hello'')"
    by simp
  from echo_result [OF h2 h3 h4 h5 h6, of example_platform simple_start]
  show ?thesis by (simp add: literal_def)
qed

end
